theory Spec2Isabelle
  imports Complex_Main
begin

section \<open>Shared vocabulary\<close>

text \<open>
  The tools of the repository are thin wrappers around third-party libraries
  (transformers, torch, PIL, cv2, depth\_anything\_v2).  The embedding follows
  \<^verbatim>\<open>vision_agent_tools/models/owlv2.py\<close> and
  \<^verbatim>\<open>vision_agent_tools/tools/depth_estimation.py\<close> line by line.  Every library
  call the wrappers make is a field of a record of functions, so that each statement below
  holds for whatever the library computes.  Library calls are taken as functions that
  return: an exception raised inside third-party code is outside the model.  Python
  floats are modelled as reals; the wrappers only pass them on, compare nothing themselves
  and hand the rounding to the interpreter's \<^verbatim>\<open>round\<close>, which is a field of the
  library record as well.
\<close>

text \<open>The device enumeration of \<^verbatim>\<open>shared_types\<close>, with the three members the
  configuration names (\<^verbatim>\<open>Device.GPU\<close>, \<^verbatim>\<open>Device.MPS\<close>, \<^verbatim>\<open>Device.CPU\<close>).\<close>

datatype Device = GPU | MPS | CPU

text \<open>The exceptions the wrappers raise themselves, or that the interpreter raises on
  their behalf (indexing a list out of range, binding an unknown keyword).\<close>

datatype error = ValueError string | IndexError string | TypeError string

text \<open>Python's \<^verbatim>\<open>xs[i]\<close> on a list: an index from \<open>-len\<close> up to \<open>len - 1\<close> selects an
  element (a negative one counts from the end), any other raises \<^verbatim>\<open>IndexError\<close>.\<close>

definition py_getitem :: "'a list \<Rightarrow> int \<Rightarrow> error + 'a" where
  "py_getitem xs i =
     (if 0 \<le> i \<and> i < int (length xs) then Inr (xs ! nat i)
      else if - int (length xs) \<le> i \<and> i < 0 then Inr (xs ! nat (int (length xs) + i))
      else Inl (IndexError ''list index out of range''))"

section \<open>The detection tool: models/owlv2.py\<close>

subsection \<open>Data\<close>

text \<open>\<^verbatim>\<open>OWLV2Config\<close>, once built.  (The bounds \<^verbatim>\<open>ge=0.0\<close> and \<^verbatim>\<open>le=1.0\<close> on
  \<^verbatim>\<open>confidence\<close> are checked by pydantic when a configuration is built.)\<close>

record OWLV2Config =
  model_name :: string
  processor_name :: string
  confidence :: real
  device :: Device

text \<open>\<^verbatim>\<open>OWLV2Config()\<close>: the field defaults.  The default device is chosen by probing
  the runtime (\<^verbatim>\<open>torch.cuda.is_available()\<close>, \<^verbatim>\<open>torch.backends.mps.is_available()\<close>),
  whose two answers are the arguments.\<close>

definition OWLV2Config_default :: "bool \<Rightarrow> bool \<Rightarrow> OWLV2Config" where
  "OWLV2Config_default cuda_is_available mps_is_available =
     \<lparr> model_name = ''google/owlv2-large-patch14-ensemble'',
       processor_name = ''google/owlv2-large-patch14-ensemble'',
       confidence = 0.1,
       device = (if cuda_is_available then GPU
                 else if mps_is_available then MPS else CPU) \<rparr>"

record Owlv2InferenceData =
  label :: string
  score :: real
  bbox :: "real list"

text \<open>One entry of what \<^verbatim>\<open>post_process_object_detection\<close> returns: the dictionary
  with the keys \<^verbatim>\<open>"boxes"\<close>, \<^verbatim>\<open>"scores"\<close> and \<^verbatim>\<open>"labels"\<close>, the tensors read as
  lists.\<close>

record detections =
  boxes :: "real list list"
  scores :: "real list"
  labels :: "int list"

text \<open>Device placements a call asks of the library, in the order it asks them:
  \<^verbatim>\<open>inputs.to(device)\<close> and \<^verbatim>\<open>torch.autocast(device)\<close>.\<close>

datatype event = InputsTo Device | Autocast Device

text \<open>The library calls of the detection tool.  \<open>'img\<close> is a PIL image, \<open>'frame\<close> a
  video frame (an array), \<open>'inp\<close> the processor's batch, \<open>'out\<close> the network's raw
  output, \<open>'net\<close> the network and \<open>'proc\<close> the processor.\<close>

record ('img, 'frame, 'inp, 'out, 'net, 'proc) library =
  model_from_pretrained :: "string \<Rightarrow> 'net"
  processor_from_pretrained :: "string \<Rightarrow> 'proc"
  module_to :: "'net \<Rightarrow> Device \<Rightarrow> 'net"
  module_eval :: "'net \<Rightarrow> 'net"
  processor_call :: "'proc \<Rightarrow> string list list \<Rightarrow> 'img \<Rightarrow> 'inp"
  inputs_to :: "'inp \<Rightarrow> Device \<Rightarrow> 'inp"
  model_forward :: "'net \<Rightarrow> Device \<Rightarrow> 'inp \<Rightarrow> 'out"
  post_process_object_detection :: "'proc \<Rightarrow> 'out \<Rightarrow> real \<Rightarrow> (nat \<times> nat) list \<Rightarrow> detections list"
  image_convert_RGB :: "'img \<Rightarrow> 'img"
  image_fromarray :: "'frame \<Rightarrow> 'img"
  image_size :: "'img \<Rightarrow> nat \<times> nat"
  py_round :: "real \<Rightarrow> int \<Rightarrow> real"

text \<open>The fields of an \<^verbatim>\<open>Owlv2\<close> instance (\<^verbatim>\<open>self.model_config\<close>, \<^verbatim>\<open>self._model\<close>,
  \<^verbatim>\<open>self._processor\<close>).\<close>

record ('net, 'proc) Owlv2 =
  model_config :: OWLV2Config
  model :: 'net
  processor :: 'proc

subsection \<open>Operations\<close>

text \<open>\<^verbatim>\<open>Owlv2.__init__\<close>: \<^verbatim>\<open>model_config or OWLV2Config()\<close>, then both objects are
  loaded by name, the network is moved to the configured device and switched to inference
  mode.\<close>

definition Owlv2_init ::
  "('img, 'frame, 'inp, 'out, 'net, 'proc) library \<Rightarrow> OWLV2Config \<Rightarrow> OWLV2Config option
    \<Rightarrow> ('net, 'proc) Owlv2" where
  "Owlv2_init L default_config model_config_arg =
     (let cfg = (case model_config_arg of None \<Rightarrow> default_config | Some c \<Rightarrow> c);
          m = model_from_pretrained L (model_name cfg);
          p = processor_from_pretrained L (processor_name cfg)
      in \<lparr> model_config = cfg,
           model = module_eval L (module_to L m (device cfg)),
           processor = p \<rparr>)"

text \<open>\<^verbatim>\<open>Owlv2.to\<close>: \<^verbatim>\<open>self._model.to(device=device.value)\<close> and nothing else.\<close>

definition Owlv2_to ::
  "('img, 'frame, 'inp, 'out, 'net, 'proc) library \<Rightarrow> ('net, 'proc) Owlv2 \<Rightarrow> Device
    \<Rightarrow> ('net, 'proc) Owlv2" where
  "Owlv2_to L s d = s\<lparr> model := module_to L (model s) d \<rparr>"

text \<open>Lines 62 to 67 of \<^verbatim>\<open>__run_inference\<close>: the processor's batch is moved to
  \<^verbatim>\<open>self.model_config.device\<close> and the forward pass runs under
  \<^verbatim>\<open>torch.autocast(self.model_config.device)\<close>.\<close>

definition forward_pass ::
  "('img, 'frame, 'inp, 'out, 'net, 'proc) library \<Rightarrow> ('net, 'proc) Owlv2 \<Rightarrow> 'img
    \<Rightarrow> string list list \<Rightarrow> event list \<times> 'out" where
  "forward_pass L s img texts =
     (let inputs = inputs_to L (processor_call L (processor s) texts img)
                     (device (model_config s));
          outputs = model_forward L (model s) (device (model_config s)) inputs
      in ([InputsTo (device (model_config s)), Autocast (device (model_config s))], outputs))"

text \<open>Lines 69 to 74: \<^verbatim>\<open>target_sizes\<close> is the image size reversed, and the library's
  post-processing is called with \<^verbatim>\<open>threshold=confidence\<close>.\<close>

definition post_process ::
  "('img, 'frame, 'inp, 'out, 'net, 'proc) library \<Rightarrow> ('net, 'proc) Owlv2 \<Rightarrow> 'img
    \<Rightarrow> string list list \<Rightarrow> real \<Rightarrow> detections list" where
  "post_process L s img texts confidence' =
     post_process_object_detection L (processor s) (snd (forward_pass L s img texts))
       confidence' [prod.swap (image_size L img)]"

text \<open>The body of the loop of lines 83 to 89, for one \<^verbatim>\<open>(box, score, label)\<close> of the
  \<^verbatim>\<open>zip\<close>: each coordinate goes through \<^verbatim>\<open>round(_, 2)\<close>, the label is
  \<^verbatim>\<open>texts[i][label.item()]\<close>.\<close>

definition new_inference ::
  "('img, 'frame, 'inp, 'out, 'net, 'proc) library \<Rightarrow> string list list \<Rightarrow> int
    \<Rightarrow> real list \<times> real \<times> int \<Rightarrow> error + Owlv2InferenceData" where
  "new_inference L texts i item =
     (case item of (box, score', label') \<Rightarrow>
        (let box' = map (\<lambda>c. py_round L c 2) box in
         case py_getitem texts i of
           Inl e \<Rightarrow> Inl e
         | Inr prompts \<Rightarrow>
             (case py_getitem prompts label' of
                Inl e \<Rightarrow> Inl e
              | Inr text' \<Rightarrow> Inr \<lparr> label = text', score = score', bbox = box' \<rparr>)))"

text \<open>The loop itself: \<^verbatim>\<open>inferences\<close> is the accumulator, an exception leaves the
  loop at once.\<close>

fun inference_loop ::
  "('img, 'frame, 'inp, 'out, 'net, 'proc) library \<Rightarrow> string list list \<Rightarrow> int
    \<Rightarrow> (real list \<times> real \<times> int) list \<Rightarrow> Owlv2InferenceData list
    \<Rightarrow> error + Owlv2InferenceData list" where
  "inference_loop L texts i [] inferences = Inr inferences"
| "inference_loop L texts i (item # rest) inferences =
     (case new_inference L texts i item of
        Inl e \<Rightarrow> Inl e
      | Inr d \<Rightarrow> inference_loop L texts i rest (inferences @ [d]))"

text \<open>Lines 75 to 91: \<^verbatim>\<open>i = 0\<close>, the three tensors of \<^verbatim>\<open>results[i]\<close> are zipped and
  turned into records.\<close>

definition decode ::
  "('img, 'frame, 'inp, 'out, 'net, 'proc) library \<Rightarrow> string list list \<Rightarrow> detections list
    \<Rightarrow> error + Owlv2InferenceData list" where
  "decode L texts results =
     (case py_getitem results 0 of
        Inl e \<Rightarrow> Inl e
      | Inr r \<Rightarrow> inference_loop L texts 0 (zip (boxes r) (zip (scores r) (labels r))) [])"

text \<open>\<^verbatim>\<open>Owlv2.__run_inference\<close>.  The first component is the list of device placements
  requested on the way, the second what the method returns or raises.\<close>

definition run_inference ::
  "('img, 'frame, 'inp, 'out, 'net, 'proc) library \<Rightarrow> ('net, 'proc) Owlv2 \<Rightarrow> 'img
    \<Rightarrow> string list list \<Rightarrow> real \<Rightarrow> event list \<times> (error + Owlv2InferenceData list)" where
  "run_inference L s img texts confidence' =
     (fst (forward_pass L s img texts),
      decode L texts (post_process L s img texts confidence'))"

text \<open>The loop over the frames of a video (lines 149 to 157).\<close>

fun video_loop ::
  "('img, 'frame, 'inp, 'out, 'net, 'proc) library \<Rightarrow> ('net, 'proc) Owlv2
    \<Rightarrow> string list list \<Rightarrow> 'frame list \<Rightarrow> event list \<Rightarrow> Owlv2InferenceData list list
    \<Rightarrow> event list \<times> (error + Owlv2InferenceData list list)" where
  "video_loop L s texts [] events inferences = (events, Inr inferences)"
| "video_loop L s texts (frame # rest) events inferences =
     (let img = image_convert_RGB L (image_fromarray L frame);
          r = run_inference L s img texts (confidence (model_config s))
      in case snd r of
           Inl e \<Rightarrow> (events @ fst r, Inl e)
         | Inr d \<Rightarrow> video_loop L s texts rest (events @ fst r) (inferences @ [d]))"

text \<open>\<^verbatim>\<open>Owlv2.__call__(self, prompts, image=None, video=None)\<close>.\<close>

definition Owlv2_call ::
  "('img, 'frame, 'inp, 'out, 'net, 'proc) library \<Rightarrow> ('net, 'proc) Owlv2 \<Rightarrow> string list
    \<Rightarrow> 'img option \<Rightarrow> 'frame list option
    \<Rightarrow> event list \<times> (error + Owlv2InferenceData list list)" where
  "Owlv2_call L s prompts image_arg video =
     (let texts = [prompts] in
      case (image_arg, video) of
        (None, None) \<Rightarrow>
          ([], Inl (ValueError ''Either 'image' or 'video' must be provided.''))
      | (Some img, Some frames) \<Rightarrow>
          ([], Inl (ValueError ''Only one of 'image' or 'video' can be provided.''))
      | (Some img, None) \<Rightarrow>
          (let r = run_inference L s (image_convert_RGB L img) texts
                     (confidence (model_config s))
           in case snd r of
                Inl e \<Rightarrow> (fst r, Inl e)
              | Inr d \<Rightarrow> (fst r, Inr ([] @ [d])))
      | (None, Some frames) \<Rightarrow> video_loop L s texts frames [] [])"

text \<open>The signature of \<^verbatim>\<open>__call__\<close> declares \<^verbatim>\<open>prompts\<close>, \<^verbatim>\<open>image\<close> and
  \<^verbatim>\<open>video\<close> and has no \<^verbatim>\<open>**kwargs\<close>.  A call that passes further keyword
  arguments, given here as \<open>extra\<close> with their names, is refused by the interpreter before
  the body runs.\<close>

definition Owlv2_call_parameters :: "string list" where
  "Owlv2_call_parameters = [''prompts'', ''image'', ''video'']"

definition Owlv2_call_keywords ::
  "('img, 'frame, 'inp, 'out, 'net, 'proc) library \<Rightarrow> ('net, 'proc) Owlv2 \<Rightarrow> string list
    \<Rightarrow> 'img option \<Rightarrow> 'frame list option \<Rightarrow> (string \<times> 'v) list
    \<Rightarrow> event list \<times> (error + Owlv2InferenceData list list)" where
  "Owlv2_call_keywords L s prompts image_arg video extra =
     (case extra of
        [] \<Rightarrow> Owlv2_call L s prompts image_arg video
      | (k, v) # _ \<Rightarrow>
          (if k \<in> set Owlv2_call_parameters
           then ([], Inl (TypeError
                  (''Owlv2.__call__() got multiple values for argument '' @ [CHR 0x27] @ k @ [CHR 0x27])))
           else ([], Inl (TypeError
                  (''Owlv2.__call__() got an unexpected keyword argument '' @ [CHR 0x27] @ k
                    @ [CHR 0x27])))))"

text \<open>What the caller holds after a call, as a Python value: a list, one entry for the
  image or for each frame, of lists of \<^verbatim>\<open>Owlv2InferenceData\<close> objects.  Lists and
  dictionaries are the other values a result of this shape can be compared with.\<close>

datatype pyval = PList "pyval list" | PDict "(string \<times> pyval) list" | PObject Owlv2InferenceData

definition py_of_output :: "Owlv2InferenceData list list \<Rightarrow> pyval" where
  "py_of_output out = PList (map (\<lambda>ds. PList (map PObject ds)) out)"

text \<open>The images a call runs inference on, in order: the converted image, or every frame
  turned into an image and converted.\<close>

definition call_images ::
  "('img, 'frame, 'inp, 'out, 'net, 'proc) library \<Rightarrow> 'img option \<Rightarrow> 'frame list option
    \<Rightarrow> 'img list" where
  "call_images L image_arg video =
     (case image_arg of
        Some img \<Rightarrow> [image_convert_RGB L img]
      | None \<Rightarrow>
          (case video of
             None \<Rightarrow> []
           | Some frames \<Rightarrow> map (\<lambda>frame. image_convert_RGB L (image_fromarray L frame)) frames))"

text \<open>The items the loop of \<^verbatim>\<open>__run_inference\<close> visits: \<^verbatim>\<open>zip\<close> stops at the
  shortest of the three tensors.\<close>

definition zipped :: "detections \<Rightarrow> (real list \<times> real \<times> int) list" where
  "zipped r = zip (boxes r) (zip (scores r) (labels r))"

text \<open>The post-processing found nothing in an image: the three tensors of its first
  result are empty.\<close>

definition no_detections ::
  "('img, 'frame, 'inp, 'out, 'net, 'proc) library \<Rightarrow> ('net, 'proc) Owlv2 \<Rightarrow> 'img
    \<Rightarrow> string list \<Rightarrow> bool" where
  "no_detections L s img prompts =
     (case post_process L s img [prompts] (confidence (model_config s)) of
        [] \<Rightarrow> False
      | r # rest \<Rightarrow> boxes r = [] \<and> scores r = [] \<and> labels r = [])"

text \<open>The number of frames of a video on which the inference runs: all of them, or those
  up to the first whose inference raises.\<close>

fun frames_processed ::
  "('img, 'frame, 'inp, 'out, 'net, 'proc) library \<Rightarrow> ('net, 'proc) Owlv2
    \<Rightarrow> string list list \<Rightarrow> 'frame list \<Rightarrow> nat" where
  "frames_processed L s texts [] = 0"
| "frames_processed L s texts (frame # rest) =
     (case snd (run_inference L s (image_convert_RGB L (image_fromarray L frame)) texts
                  (confidence (model_config s))) of
        Inl e \<Rightarrow> 1
      | Inr d \<Rightarrow> Suc (frames_processed L s texts rest))"

section \<open>The depth estimation tool: tools/depth\_estimation.py\<close>

text \<open>\<^verbatim>\<open>DepthMap\<close> has the one field \<^verbatim>\<open>map\<close>.\<close>

datatype 'd DepthMap = DepthMap (map': 'd)

text \<open>The objects a caller can pass as \<^verbatim>\<open>image\<close>: Python checks no annotation, so the
  argument is any object.  \<^verbatim>\<open>str\<close> and \<^verbatim>\<open>PIL.Image.Image\<close> are the two types the
  method tests for.\<close>

datatype ('img, 'arr) py_object =
    PyStr string
  | PILImage 'img
  | PyNone
  | PyInt int
  | PyFloat real
  | PyBytes "nat list"
  | PathlibPath string
  | NdArray 'arr
  | PyList "('img, 'arr) py_object list"

text \<open>The library calls of the depth tool: \<^verbatim>\<open>cv2.imread\<close>, \<^verbatim>\<open>np.array\<close>,
  \<^verbatim>\<open>cv2.cvtColor(_, cv2.COLOR_RGB2BGR)\<close> and the network's \<^verbatim>\<open>infer_image\<close>.\<close>

record ('img, 'arr, 'dnet, 'd) depth_library =
  cv2_imread :: "string \<Rightarrow> 'arr"
  np_array :: "'img \<Rightarrow> 'arr"
  cv2_cvtColor_RGB2BGR :: "'arr \<Rightarrow> 'arr"
  infer_image :: "'dnet \<Rightarrow> 'arr \<Rightarrow> 'd"

text \<open>The fields of a \<^verbatim>\<open>DepthEstimation\<close> instance that \<^verbatim>\<open>__init__\<close> sets.\<close>

record 'dnet DepthEstimation =
  depth_model :: 'dnet
  depth_device :: string
  model_checkpoint_path :: string

text \<open>\<^verbatim>\<open>DepthEstimation.__call__\<close>.  What \<^verbatim>\<open>cv2.imread\<close> makes of a path that cannot
  be read is the library's matter: the method passes its result on unchecked.\<close>

definition DepthEstimation_call ::
  "('img, 'arr, 'dnet, 'd) depth_library \<Rightarrow> 'dnet DepthEstimation \<Rightarrow> ('img, 'arr) py_object
    \<Rightarrow> error + 'd DepthMap" where
  "DepthEstimation_call D t image_arg =
     (case image_arg of
        PyStr path \<Rightarrow> Inr (DepthMap (infer_image D (depth_model t) (cv2_imread D path)))
      | PILImage img \<Rightarrow>
          Inr (DepthMap (infer_image D (depth_model t)
                 (cv2_cvtColor_RGB2BGR D (np_array D img))))
      | _ \<Rightarrow> Inl (ValueError ''Invalid image type. Expected str or PIL.Image.Image.''))"

section \<open>A library instance for evaluation\<close>

text \<open>A small instance of the library record, on which the statements below are run.  An
  image is given by the candidate detections the network finds in it; the post-processing
  keeps the candidates whose score exceeds the threshold; the network is represented by
  the device it is placed on.\<close>

type_synonym candidates = "(real list \<times> real \<times> int) list"

definition example_library ::
  "(candidates, candidates, candidates, candidates, Device, unit) library" where
  "example_library =
     \<lparr> model_from_pretrained = (\<lambda>name. CPU),
       processor_from_pretrained = (\<lambda>name. ()),
       module_to = (\<lambda>net d. d),
       module_eval = (\<lambda>net. net),
       processor_call = (\<lambda>p texts img. img),
       inputs_to = (\<lambda>inputs d. inputs),
       model_forward = (\<lambda>net d inputs. inputs),
       post_process_object_detection = (\<lambda>p out thr sizes.
          [\<lparr> boxes = map fst (filter (\<lambda>c. thr < fst (snd c)) out),
             scores = map (\<lambda>c. fst (snd c)) (filter (\<lambda>c. thr < fst (snd c)) out),
             labels = map (\<lambda>c. snd (snd c)) (filter (\<lambda>c. thr < fst (snd c)) out) \<rparr>]),
       image_convert_RGB = (\<lambda>img. img),
       image_fromarray = (\<lambda>frame. frame),
       image_size = (\<lambda>img. (640, 480)),
       py_round = (\<lambda>x n. of_int (round (x * 10 ^ nat n)) / 10 ^ nat n) \<rparr>"

text \<open>A second instance, for a second run: its network drops the weakest candidates
  already, so the raw outputs of the two differ while the results above a threshold of 0.5
  agree.\<close>

definition example_library' ::
  "(candidates, candidates, candidates, candidates, Device, unit) library" where
  "example_library' =
     example_library
       \<lparr> model_forward := (\<lambda>net d inputs. filter (\<lambda>c. 0.4 < fst (snd c)) inputs) \<rparr>"

definition example_tool :: "(Device, unit) Owlv2" where
  "example_tool =
     Owlv2_init example_library (OWLV2Config_default False False)
       (Some \<lparr> model_name = ''owlv2'', processor_name = ''owlv2'', confidence = 0.5,
               device = CPU \<rparr>)"

definition example_depth_library :: "(nat, nat, unit, nat) depth_library" where
  "example_depth_library =
     \<lparr> cv2_imread = length, np_array = (\<lambda>img. img), cv2_cvtColor_RGB2BGR = (\<lambda>a. a),
       infer_image = (\<lambda>net a. a + 1) \<rparr>"

definition example_depth_tool :: "unit DepthEstimation" where
  "example_depth_tool =
     \<lparr> depth_model = (), depth_device = ''cpu'',
       model_checkpoint_path = ''depth_anything_v2_vits.pth'' \<rparr>"

text \<open>An instance in which the placements show in the network's output: the batch
  carries the device it was moved to, and the raw output carries the device of the
  network, the device of the autocast context and the device of the batch.\<close>

definition device_library ::
  "(candidates, candidates, Device \<times> candidates, (Device \<times> Device \<times> Device) \<times> candidates,
    Device, unit) library" where
  "device_library =
     \<lparr> model_from_pretrained = (\<lambda>name. CPU),
       processor_from_pretrained = (\<lambda>name. ()),
       module_to = (\<lambda>net d. d),
       module_eval = (\<lambda>net. net),
       processor_call = (\<lambda>p texts img. (CPU, img)),
       inputs_to = (\<lambda>inputs d. (d, snd inputs)),
       model_forward = (\<lambda>net d inputs. ((net, d, fst inputs), snd inputs)),
       post_process_object_detection = (\<lambda>p out thr sizes.
          [\<lparr> boxes = map fst (filter (\<lambda>c. thr < fst (snd c)) (snd out)),
             scores = map (\<lambda>c. fst (snd c)) (filter (\<lambda>c. thr < fst (snd c)) (snd out)),
             labels = map (\<lambda>c. snd (snd c)) (filter (\<lambda>c. thr < fst (snd c)) (snd out)) \<rparr>]),
       image_convert_RGB = (\<lambda>img. img),
       image_fromarray = (\<lambda>frame. frame),
       image_size = (\<lambda>img. (640, 480)),
       py_round = (\<lambda>x n. x) \<rparr>"

definition device_tool :: "(Device, unit) Owlv2" where
  "device_tool =
     Owlv2_init device_library (OWLV2Config_default False False)
       (Some \<lparr> model_name = ''owlv2'', processor_name = ''owlv2'', confidence = 0.5,
               device = MPS \<rparr>)"

text \<open>An image with two overlapping candidates for the first prompt and a weak third
  one.\<close>

definition two_cars :: candidates where
  "two_cars =
     [([34.881, 158.16, 582.08, 373.2], 0.9, 0),
      ([34.881, 158.16, 582.08, 373.2], 0.8, 0),
      ([1, 2, 3, 4], 0.3, 0)]"

text \<open>An image in which nothing reaches a threshold of 0.5.\<close>

definition no_detections_image :: candidates where
  "no_detections_image = [([1, 2, 3, 4], 0.3, 0)]"

text \<open>An image whose one strong candidate carries the label index 1.\<close>

definition stray_label_image :: candidates where
  "stray_label_image = [([1, 2, 3, 4], 0.9, 1)]"

section \<open>Indexing and the inference loop\<close>

lemma py_getitem_error: "py_getitem xs i = Inl e \<Longrightarrow> e = IndexError ''list index out of range''"
  by (auto simp: py_getitem_def split: if_splits)

lemma py_getitem_singleton_0: "py_getitem [x] 0 = Inr x"
  by (simp add: py_getitem_def)

lemma py_getitem_Cons_0: "py_getitem (x # xs) 0 = Inr x"
  by (simp add: py_getitem_def)

lemma py_getitem_Nil: "py_getitem [] i = Inl (IndexError ''list index out of range'')"
  by (simp add: py_getitem_def)

lemma py_getitem_Inr_bound: "py_getitem xs i = Inr x \<Longrightarrow> - int (length xs) \<le> i \<and> i < int (length xs)"
  by (auto simp: py_getitem_def split: if_splits)

lemma py_getitem_out_of_range: "int (length xs) \<le> i \<Longrightarrow> py_getitem xs i = Inl (IndexError ''list index out of range'')"
  by (simp add: py_getitem_def)

lemma new_inference_Inr_iff:
  "new_inference L [prompts] 0 (b, sc, l) = Inr d \<longleftrightarrow>
     (\<exists>t. py_getitem prompts l = Inr t \<and> d = \<lparr> label = t, score = sc, bbox = map (\<lambda>c. py_round L c 2) b \<rparr>)"
  by (auto simp: new_inference_def py_getitem_singleton_0 split: sum.splits)

lemma new_inference_error:
  "new_inference L texts i item = Inl e \<Longrightarrow> e = IndexError ''list index out of range''"
  by (auto simp: new_inference_def Let_def split: prod.splits sum.splits dest: py_getitem_error)

lemma inference_loop_acc:
  "inference_loop L texts i items acc =
     (case inference_loop L texts i items [] of Inl e \<Rightarrow> Inl e | Inr ds \<Rightarrow> Inr (acc @ ds))"
proof (induction items arbitrary: acc)
  case Nil
  show ?case by simp
next
  case (Cons item rest)
  show ?case
  proof (cases "new_inference L texts i item")
    case (Inl e)
    then show ?thesis by simp
  next
    case (Inr d)
    have step: "inference_loop L texts i (item # rest) acc' = inference_loop L texts i rest (acc' @ [d])"
      for acc'
      using Inr by simp
    show ?thesis
      unfolding step
      by (subst Cons.IH [of "acc @ [d]"], subst Cons.IH [of "[] @ [d]"]) (simp split: sum.splits)
  qed
qed

lemma inference_loop_Cons:
  "inference_loop L texts i (item # rest) [] =
     (case new_inference L texts i item of
        Inl e \<Rightarrow> Inl e
      | Inr d \<Rightarrow> (case inference_loop L texts i rest [] of Inl e \<Rightarrow> Inl e | Inr ds \<Rightarrow> Inr (d # ds)))"
proof (cases "new_inference L texts i item")
  case (Inl e)
  then show ?thesis by simp
next
  case (Inr d)
  then show ?thesis
    using inference_loop_acc [of L texts i rest "[d]"] by (simp split: sum.splits)
qed

lemma inference_loop_Inr_iff:
  "inference_loop L texts i items [] = Inr ds \<longleftrightarrow> map (new_inference L texts i) items = map Inr ds"
proof (induction items arbitrary: ds)
  case Nil
  show ?case by auto
next
  case (Cons item rest)
  show ?case
  proof (cases "new_inference L texts i item")
    case (Inl e)
    then show ?thesis
      unfolding inference_loop_Cons by (cases ds) auto
  next
    case d: (Inr d)
    show ?thesis
    proof (cases "inference_loop L texts i rest []")
      case (Inl e)
      then have "map (new_inference L texts i) rest \<noteq> map Inr ds'" for ds'
        using Cons.IH [of ds'] by simp
      then show ?thesis
        unfolding inference_loop_Cons using d Inl by (cases ds) auto
    next
      case (Inr ds0)
      then have "map (new_inference L texts i) rest = map Inr ds0"
        using Cons.IH [of ds0] by simp
      then show ?thesis
        unfolding inference_loop_Cons using d Inr by (cases ds) auto
    qed
  qed
qed

lemma inference_loop_error:
  "inference_loop L texts i items acc = Inl e \<Longrightarrow> e = IndexError ''list index out of range''"
  by (induction items arbitrary: acc) (auto split: sum.splits dest: new_inference_error)


lemma decode_Inr_iff:
  "decode L texts results = Inr ds \<longleftrightarrow>
     (\<exists>r rest. results = r # rest \<and> map (new_inference L texts 0) (zipped r) = map Inr ds)"
  by (cases results)
     (simp_all add: decode_def py_getitem_Nil py_getitem_Cons_0 inference_loop_Inr_iff zipped_def)

lemma decode_error:
  "decode L texts results = Inl e \<Longrightarrow> e = IndexError ''list index out of range''"
  by (auto simp: decode_def split: sum.splits dest: py_getitem_error inference_loop_error)

lemma fst_run_inference:
  "fst (run_inference L s img texts c) =
     [InputsTo (device (model_config s)), Autocast (device (model_config s))]"
  by (simp add: run_inference_def forward_pass_def Let_def)

lemma snd_run_inference:
  "snd (run_inference L s img texts c) = decode L texts (post_process L s img texts c)"
  by (simp add: run_inference_def)

lemma run_inference_error:
  "snd (run_inference L s img texts c) = Inl e \<Longrightarrow> e = IndexError ''list index out of range''"
  by (simp add: snd_run_inference decode_error)

lemma video_loop_Inr_iff:
  "snd (video_loop L s texts frames evs acc) = Inr out \<longleftrightarrow>
     (\<exists>ds. out = acc @ ds \<and>
        map (\<lambda>frame. snd (run_inference L s (image_convert_RGB L (image_fromarray L frame)) texts
               (confidence (model_config s)))) frames = map Inr ds)"
proof (induction frames arbitrary: evs acc)
  case Nil
  show ?case by auto
next
  case (Cons frame rest)
  let ?r = "run_inference L s (image_convert_RGB L (image_fromarray L frame)) texts
              (confidence (model_config s))"
  show ?case
  proof (cases "snd ?r")
    case (Inl e)
    then show ?thesis by (auto simp: Let_def)
  next
    case (Inr d)
    have "snd (video_loop L s texts (frame # rest) evs acc) =
          snd (video_loop L s texts rest (evs @ fst ?r) (acc @ [d]))"
      using Inr by (simp add: Let_def)
    then show ?thesis
      using Inr Cons.IH [of "evs @ fst ?r" "acc @ [d]"]
      by (auto simp: map_eq_Cons_conv Cons_eq_map_conv)
  qed
qed

lemma video_loop_error:
  "snd (video_loop L s texts frames evs acc) = Inl e \<Longrightarrow> e = IndexError ''list index out of range''"
proof (induction frames arbitrary: evs acc)
  case Nil
  then show ?case by simp
next
  case (Cons frame rest)
  then show ?case
    by (auto simp: Let_def split: sum.splits dest: run_inference_error)
qed

lemma video_loop_events:
  "set (fst (video_loop L s texts frames evs acc)) \<subseteq>
     set evs \<union> {InputsTo (device (model_config s)), Autocast (device (model_config s))}"
proof (induction frames arbitrary: evs acc)
  case Nil
  show ?case by auto
next
  case (Cons frame rest)
  let ?r = "run_inference L s (image_convert_RGB L (image_fromarray L frame)) texts
              (confidence (model_config s))"
  show ?case
  proof (cases "snd ?r")
    case (Inl e)
    then show ?thesis by (auto simp: Let_def fst_run_inference)
  next
    case (Inr d)
    then show ?thesis
      using Cons.IH [of "evs @ fst ?r" "acc @ [d]"]
      by (auto simp: Let_def fst_run_inference)
  qed
qed

lemma Owlv2_call_Inr_iff:
  assumes "(image_arg = None) \<noteq> (video = None)"
  shows "snd (Owlv2_call L s prompts image_arg video) = Inr out \<longleftrightarrow>
     map (\<lambda>img. snd (run_inference L s img [prompts] (confidence (model_config s))))
       (call_images L image_arg video) = map Inr out"
proof (cases image_arg)
  case None
  then obtain frames where v: "video = Some frames" using assms by auto
  show ?thesis
    using None v video_loop_Inr_iff [of L s "[prompts]" frames "[]" "[]" out]
    by (simp add: Owlv2_call_def call_images_def comp_def)
next
  case (Some img)
  then have v: "video = None" using assms by auto
  show ?thesis
    using Some v
    by (cases out) (auto simp: Owlv2_call_def call_images_def Let_def split: sum.splits)
qed

lemma Owlv2_call_error:
  assumes "(image_arg = None) \<noteq> (video = None)"
    and "snd (Owlv2_call L s prompts image_arg video) = Inl e"
  shows "e = IndexError ''list index out of range''"
proof (cases image_arg)
  case None
  then obtain frames where v: "video = Some frames" using assms by auto
  show ?thesis
    using None v assms(2) video_loop_error [of L s "[prompts]" frames "[]" "[]" e]
    by (simp add: Owlv2_call_def)
next
  case (Some img)
  then have v: "video = None" using assms by auto
  show ?thesis
    using Some v assms(2)
    by (auto simp: Owlv2_call_def Let_def split: sum.splits dest: run_inference_error)
qed

lemma new_inference_fields:
  "new_inference L texts i item = Inr d \<Longrightarrow>
     score d = fst (snd item) \<and> bbox d = map (\<lambda>c. py_round L c 2) (fst item)"
  by (auto simp: new_inference_def Let_def split: prod.splits sum.splits)

lemma decode_records:
  assumes "decode L [prompts] results = Inr ds"
  shows "\<exists>r rest. results = r # rest \<and> length ds = length (zipped r) \<and>
     (\<forall>k<length ds.
        py_getitem prompts (snd (snd (zipped r ! k))) = Inr (label (ds ! k)) \<and>
        score (ds ! k) = fst (snd (zipped r ! k)) \<and>
        bbox (ds ! k) = map (\<lambda>c. py_round L c 2) (fst (zipped r ! k)))"
proof -
  obtain r rest where r: "results = r # rest"
    and m: "map (new_inference L [prompts] 0) (zipped r) = map Inr ds"
    using assms decode_Inr_iff by blast
  have len: "length ds = length (zipped r)"
    using m by (metis length_map)
  have "py_getitem prompts (snd (snd (zipped r ! k))) = Inr (label (ds ! k)) \<and>
        score (ds ! k) = fst (snd (zipped r ! k)) \<and>
        bbox (ds ! k) = map (\<lambda>c. py_round L c 2) (fst (zipped r ! k))" if "k < length ds" for k
  proof -
    have "new_inference L [prompts] 0 (zipped r ! k) = Inr (ds ! k)"
      using m that len by (metis nth_map)
    then have "new_inference L [prompts] 0
        (fst (zipped r ! k), fst (snd (zipped r ! k)), snd (snd (zipped r ! k))) = Inr (ds ! k)"
      by simp
    then show ?thesis
      unfolding new_inference_Inr_iff by auto
  qed
  then show ?thesis using r len by blast
qed

lemma zipped_nth:
  "k < length (zipped r) \<Longrightarrow>
     zipped r ! k = (boxes r ! k, scores r ! k, labels r ! k)"
  by (simp add: zipped_def)

lemma zipped_labels:
  "length (boxes r) = length (labels r) \<Longrightarrow> length (scores r) = length (labels r) \<Longrightarrow>
     map (\<lambda>item. snd (snd item)) (zipped r) = labels r"
  by (simp add: zipped_def list_eq_iff_nth_eq)

lemma Owlv2_call_Inr_one:
  "snd (Owlv2_call L s prompts image_arg video) = Inr out \<Longrightarrow> (image_arg = None) \<noteq> (video = None)"
  by (cases image_arg; cases video) (auto simp: Owlv2_call_def)

lemma Owlv2_call_outputs:
  assumes "snd (Owlv2_call L s prompts image_arg video) = Inr out"
  shows "length out = length (call_images L image_arg video) \<and>
     (\<forall>j<length out.
        decode L [prompts] (post_process L s (call_images L image_arg video ! j) [prompts]
          (confidence (model_config s))) = Inr (out ! j))"
proof -
  have "map (\<lambda>img. snd (run_inference L s img [prompts] (confidence (model_config s))))
       (call_images L image_arg video) = map Inr out"
    using assms Owlv2_call_Inr_iff [OF Owlv2_call_Inr_one [OF assms]] by blast
  then show ?thesis
    by (auto simp: list_eq_iff_nth_eq snd_run_inference)
qed

lemma Owlv2_call_records:
  assumes "snd (Owlv2_call L s prompts image_arg video) = Inr out"
  shows "length out = length (call_images L image_arg video) \<and>
     (\<forall>j<length out. \<exists>r rest.
        post_process L s (call_images L image_arg video ! j) [prompts]
          (confidence (model_config s)) = r # rest \<and>
        length (out ! j) = length (zipped r) \<and>
        (\<forall>k<length (out ! j).
           py_getitem prompts (labels r ! k) = Inr (label (out ! j ! k)) \<and>
           (0 \<le> labels r ! k \<longrightarrow> label (out ! j ! k) = prompts ! nat (labels r ! k)) \<and>
           bbox (out ! j ! k) = map (\<lambda>c. py_round L c 2) (boxes r ! k) \<and>
           length (bbox (out ! j ! k)) = length (boxes r ! k) \<and>
           score (out ! j ! k) = scores r ! k))"
proof (intro conjI allI impI)
  show "length out = length (call_images L image_arg video)"
    using Owlv2_call_outputs [OF assms] by blast
next
  fix j assume j: "j < length out"
  let ?pp = "post_process L s (call_images L image_arg video ! j) [prompts]
          (confidence (model_config s))"
  have "decode L [prompts] ?pp = Inr (out ! j)"
    using Owlv2_call_outputs [OF assms] j by blast
  from decode_records [OF this] obtain r rest where r: "?pp = r # rest"
    and len: "length (out ! j) = length (zipped r)"
    and rec: "\<forall>k<length (out ! j).
        py_getitem prompts (snd (snd (zipped r ! k))) = Inr (label (out ! j ! k)) \<and>
        score (out ! j ! k) = fst (snd (zipped r ! k)) \<and>
        bbox (out ! j ! k) = map (\<lambda>c. py_round L c 2) (fst (zipped r ! k))"
    by blast
  have "py_getitem prompts (labels r ! k) = Inr (label (out ! j ! k)) \<and>
           (0 \<le> labels r ! k \<longrightarrow> label (out ! j ! k) = prompts ! nat (labels r ! k)) \<and>
           bbox (out ! j ! k) = map (\<lambda>c. py_round L c 2) (boxes r ! k) \<and>
           length (bbox (out ! j ! k)) = length (boxes r ! k) \<and>
           score (out ! j ! k) = scores r ! k" if k: "k < length (out ! j)" for k
  proof -
    have z: "zipped r ! k = (boxes r ! k, scores r ! k, labels r ! k)"
      using k len by (simp add: zipped_nth)
    have g: "py_getitem prompts (labels r ! k) = Inr (label (out ! j ! k))"
      and sc: "score (out ! j ! k) = scores r ! k"
      and bb: "bbox (out ! j ! k) = map (\<lambda>c. py_round L c 2) (boxes r ! k)"
      using rec k z by auto
    have "label (out ! j ! k) = prompts ! nat (labels r ! k)" if "0 \<le> labels r ! k"
      using g that by (auto simp: py_getitem_def split: if_splits)
    then show ?thesis using g sc bb by simp
  qed
  then show "\<exists>r rest. ?pp = r # rest \<and>
        length (out ! j) = length (zipped r) \<and>
        (\<forall>k<length (out ! j).
           py_getitem prompts (labels r ! k) = Inr (label (out ! j ! k)) \<and>
           (0 \<le> labels r ! k \<longrightarrow> label (out ! j ! k) = prompts ! nat (labels r ! k)) \<and>
           bbox (out ! j ! k) = map (\<lambda>c. py_round L c 2) (boxes r ! k) \<and>
           length (bbox (out ! j ! k)) = length (boxes r ! k) \<and>
           score (out ! j ! k) = scores r ! k)"
    using r len by blast
qed

lemma decode_item_bound:
  assumes "decode L [prompts] (r # rest) = Inr ds" and "item \<in> set (zipped r)"
  shows "snd (snd item) < int (length prompts)"
proof -
  have m: "map (new_inference L [prompts] 0) (zipped r) = map Inr ds"
    using assms(1) decode_Inr_iff [of L "[prompts]" "r # rest" ds] by simp
  obtain k where k: "k < length (zipped r)" and item: "item = zipped r ! k"
    using assms(2) by (metis in_set_conv_nth)
  have "new_inference L [prompts] 0 item = Inr (ds ! k)"
    using m k item by (metis length_map nth_map)
  then have "new_inference L [prompts] 0 (fst item, fst (snd item), snd (snd item)) = Inr (ds ! k)"
    by simp
  then obtain t where "py_getitem prompts (snd (snd item)) = Inr t"
    unfolding new_inference_Inr_iff by blast
  then show ?thesis
    by (auto dest: py_getitem_Inr_bound)
qed

lemma Owlv2_call_index_bound:
  assumes "snd (Owlv2_call L s prompts image_arg video) = Inr out"
    and "img \<in> set (call_images L image_arg video)"
    and "post_process L s img [prompts] (confidence (model_config s)) = r # rest"
    and "item \<in> set (zipped r)"
  shows "snd (snd item) < int (length prompts)"
proof -
  have len: "length out = length (call_images L image_arg video)"
    and each: "\<forall>j<length out.
        decode L [prompts] (post_process L s (call_images L image_arg video ! j) [prompts]
          (confidence (model_config s))) = Inr (out ! j)"
    using Owlv2_call_outputs [OF assms(1)] by blast+
  obtain j where j: "j < length (call_images L image_arg video)"
    and img: "img = call_images L image_arg video ! j"
    using assms(2) by (metis in_set_conv_nth)
  have "decode L [prompts] (post_process L s img [prompts] (confidence (model_config s))) =
      Inr (out ! j)"
    using each j len unfolding img by auto
  then have "decode L [prompts] (r # rest) = Inr (out ! j)"
    unfolding assms(3) .
  then show ?thesis
    using assms(4) decode_item_bound by blast
qed

lemma no_detections_decode:
  assumes "no_detections L s img prompts"
  shows "decode L [prompts] (post_process L s img [prompts] (confidence (model_config s))) = Inr []"
proof -
  obtain r rest where pp: "post_process L s img [prompts] (confidence (model_config s)) = r # rest"
    and empty: "boxes r = []"
    using assms by (auto simp: no_detections_def split: list.splits)
  have "zipped r = []" using empty by (simp add: zipped_def)
  then show ?thesis
    unfolding pp decode_Inr_iff by simp
qed

lemma Owlv2_call_all_detections:
  assumes "snd (Owlv2_call L s prompts image_arg video) = Inr out"
  shows "length out = length (call_images L image_arg video) \<and>
     (\<forall>j<length out. \<exists>r rest.
        post_process L s (call_images L image_arg video ! j) [prompts]
          (confidence (model_config s)) = r # rest \<and>
        map score (out ! j) = map (\<lambda>item. fst (snd item)) (zipped r) \<and>
        map bbox (out ! j) = map (\<lambda>item. map (\<lambda>c. py_round L c 2) (fst item)) (zipped r))"
proof (intro conjI allI impI)
  show "length out = length (call_images L image_arg video)"
    using Owlv2_call_outputs [OF assms] by blast
next
  fix j assume j: "j < length out"
  let ?pp = "post_process L s (call_images L image_arg video ! j) [prompts]
          (confidence (model_config s))"
  have "decode L [prompts] ?pp = Inr (out ! j)"
    using Owlv2_call_outputs [OF assms] j by blast
  from decode_records [OF this] obtain r rest where r: "?pp = r # rest"
    and len: "length (out ! j) = length (zipped r)"
    and rec: "\<forall>k<length (out ! j).
        py_getitem prompts (snd (snd (zipped r ! k))) = Inr (label (out ! j ! k)) \<and>
        score (out ! j ! k) = fst (snd (zipped r ! k)) \<and>
        bbox (out ! j ! k) = map (\<lambda>c. py_round L c 2) (fst (zipped r ! k))"
    by blast
  have "map score (out ! j) = map (\<lambda>item. fst (snd item)) (zipped r)"
    using len rec by (simp add: list_eq_iff_nth_eq)
  moreover have "map bbox (out ! j) =
      map (\<lambda>item. map (\<lambda>c. py_round L c 2) (fst item)) (zipped r)"
    using len rec by (simp add: list_eq_iff_nth_eq)
  ultimately show "\<exists>r rest. ?pp = r # rest \<and>
        map score (out ! j) = map (\<lambda>item. fst (snd item)) (zipped r) \<and>
        map bbox (out ! j) = map (\<lambda>item. map (\<lambda>c. py_round L c 2) (fst item)) (zipped r)"
    using r by blast
qed

lemma new_inference_library:
  "py_round L = py_round L' \<Longrightarrow> new_inference L texts i item = new_inference L' texts i item"
  by (simp add: new_inference_def)

lemma inference_loop_library:
  "py_round L = py_round L' \<Longrightarrow>
     inference_loop L texts i items acc = inference_loop L' texts i items acc"
  by (induction items arbitrary: acc)
     (simp_all add: new_inference_library [of L L'] split: sum.splits)

lemma decode_library:
  "py_round L = py_round L' \<Longrightarrow> decode L texts results = decode L' texts results"
  by (simp add: decode_def inference_loop_library [of L L'] split: sum.splits)

lemma sum_eq_by_Inr:
  fixes a b :: "error + 'a"
  assumes "\<And>x. a = Inr x \<longleftrightarrow> b = Inr x"
    and "\<And>e. a = Inl e \<Longrightarrow> e = e0" and "\<And>e. b = Inl e \<Longrightarrow> e = e0"
  shows "a = b"
proof (cases a)
  case (Inr x)
  then show ?thesis using assms(1) by simp
next
  case (Inl e)
  then have "\<And>x. b \<noteq> Inr x" using assms(1) by auto
  then obtain e' where "b = Inl e'" by (cases b) auto
  then show ?thesis using Inl assms(2,3) by blast
qed

lemma Owlv2_call_events:
  "set (fst (Owlv2_call L s prompts image_arg video)) \<subseteq>
     {InputsTo (device (model_config s)), Autocast (device (model_config s))}"
proof (cases image_arg)
  case None
  show ?thesis
  proof (cases video)
    case n: None
    show ?thesis using None n by (simp add: Owlv2_call_def)
  next
    case (Some frames)
    show ?thesis
      using None Some video_loop_events [of L s "[prompts]" frames "[]" "[]"]
      by (simp add: Owlv2_call_def)
  qed
next
  case (Some img)
  then show ?thesis
    by (cases video) (auto simp: Owlv2_call_def Let_def fst_run_inference split: sum.splits)
qed

lemma Owlv2_call_image_events:
  "fst (Owlv2_call L s prompts (Some img) None) =
     [InputsTo (device (model_config s)), Autocast (device (model_config s))]"
  by (auto simp: Owlv2_call_def Let_def fst_run_inference split: sum.splits)

lemma forward_pass_after_to:
  "forward_pass L (Owlv2_to L s d) img texts =
     ([InputsTo (device (model_config s)), Autocast (device (model_config s))],
      model_forward L (module_to L (model s) d) (device (model_config s))
        (inputs_to L (processor_call L (processor s) texts img) (device (model_config s))))"
  by (simp add: forward_pass_def Owlv2_to_def Let_def)

lemma run_inference_after_to:
  "run_inference L (Owlv2_to L s d) img texts c =
     ([InputsTo (device (model_config s)), Autocast (device (model_config s))],
      decode L texts
        (post_process_object_detection L (processor s)
           (model_forward L (module_to L (model s) d) (device (model_config s))
              (inputs_to L (processor_call L (processor s) texts img) (device (model_config s))))
           c [prod.swap (image_size L img)]))"
  by (simp add: run_inference_def post_process_def forward_pass_after_to)
     (simp add: Owlv2_to_def)

lemma Owlv2_call_image:
  "Owlv2_call L s prompts (Some img) None =
     (fst (run_inference L s (image_convert_RGB L img) [prompts] (confidence (model_config s))),
      case snd (run_inference L s (image_convert_RGB L img) [prompts]
                  (confidence (model_config s))) of
        Inl e \<Rightarrow> Inl e
      | Inr ds \<Rightarrow> Inr [ds])"
  by (simp add: Owlv2_call_def Let_def split: sum.splits)

lemma video_loop_events_exact:
  "fst (video_loop L s texts frames evs acc) =
     evs @ concat (replicate (frames_processed L s texts frames)
              [InputsTo (device (model_config s)), Autocast (device (model_config s))])"
proof (induction frames arbitrary: evs acc)
  case Nil
  show ?case by simp
next
  case (Cons frame rest)
  let ?r = "run_inference L s (image_convert_RGB L (image_fromarray L frame)) texts
              (confidence (model_config s))"
  show ?case
  proof (cases "snd ?r")
    case (Inl e)
    then show ?thesis by (simp add: Let_def fst_run_inference)
  next
    case (Inr d)
    then show ?thesis
      using Cons.IH [of "evs @ fst ?r" "acc @ [d]"]
      by (simp add: Let_def fst_run_inference)
  qed
qed

lemma frames_processed_le: "frames_processed L s texts frames \<le> length frames"
  by (induction frames) (auto split: sum.splits)

lemma frames_processed_all:
  "map (\<lambda>frame. snd (run_inference L s (image_convert_RGB L (image_fromarray L frame)) texts
               (confidence (model_config s)))) frames = map Inr ds
   \<Longrightarrow> frames_processed L s texts frames = length frames"
proof (induction frames arbitrary: ds)
  case Nil
  show ?case by simp
next
  case (Cons frame rest)
  then obtain d ds' where ds: "ds = d # ds'"
    and d: "snd (run_inference L s (image_convert_RGB L (image_fromarray L frame)) texts
               (confidence (model_config s))) = Inr d"
    and rest: "map (\<lambda>frame. snd (run_inference L s (image_convert_RGB L (image_fromarray L frame))
               texts (confidence (model_config s)))) rest = map Inr ds'"
    by (cases ds) auto
  show ?case
    using d Cons.IH [OF rest] by simp
qed

lemma Owlv2_call_video_events:
  "fst (Owlv2_call L s prompts None (Some frames)) =
     concat (replicate (frames_processed L s [prompts] frames)
       [InputsTo (device (model_config s)), Autocast (device (model_config s))])"
  using video_loop_events_exact [of L s "[prompts]" frames "[]" "[]"]
  by (simp add: Owlv2_call_def)

lemma Owlv2_call_video_returned:
  assumes "snd (Owlv2_call L s prompts None (Some frames)) = Inr out"
  shows "frames_processed L s [prompts] frames = length frames \<and>
     (\<forall>k<length frames.
        snd (run_inference L s (image_convert_RGB L (image_fromarray L (frames ! k))) [prompts]
               (confidence (model_config s))) = Inr (out ! k))"
proof -
  have m: "map (\<lambda>frame. snd (run_inference L s (image_convert_RGB L (image_fromarray L frame))
               [prompts] (confidence (model_config s)))) frames = map Inr out"
    using assms Owlv2_call_Inr_iff [of None "Some frames" L s prompts out]
    by (simp add: call_images_def comp_def)
  have "frames_processed L s [prompts] frames = length frames"
    by (rule frames_processed_all [OF m])
  moreover have "\<forall>k<length frames.
        snd (run_inference L s (image_convert_RGB L (image_fromarray L (frames ! k))) [prompts]
               (confidence (model_config s))) = Inr (out ! k)"
    using m by (auto simp: list_eq_iff_nth_eq)
  ultimately show ?thesis by blast
qed

section \<open>The library instance, evaluated\<close>

lemma example_tool_simps:
  "model_config example_tool = \<lparr> model_name = ''owlv2'', processor_name = ''owlv2'', confidence = 0.5, device = CPU \<rparr>"
  "model example_tool = CPU"
  "processor example_tool = ()"
  by (simp_all add: example_tool_def Owlv2_init_def example_library_def)

lemma example_post_process:
  "post_process example_library example_tool img texts c =
     [\<lparr> boxes = map fst (filter (\<lambda>c'. c < fst (snd c')) img),
        scores = map (\<lambda>c'. fst (snd c')) (filter (\<lambda>c'. c < fst (snd c')) img),
        labels = map (\<lambda>c'. snd (snd c')) (filter (\<lambda>c'. c < fst (snd c')) img) \<rparr>]"
  by (simp add: post_process_def forward_pass_def example_library_def Let_def)

lemma example_run_two_cars:
  "run_inference example_library example_tool two_cars [[''car'']] 0.5 =
     ([InputsTo CPU, Autocast CPU],
      Inr [\<lparr> label = ''car'', score = 0.9, bbox = [34.88, 158.16, 582.08, 373.2] \<rparr>,
           \<lparr> label = ''car'', score = 0.8, bbox = [34.88, 158.16, 582.08, 373.2] \<rparr>])"
  by (simp add: run_inference_def forward_pass_def example_tool_simps example_post_process decode_def
       py_getitem_def new_inference_def two_cars_def Let_def)
     (simp add: example_library_def round_def)

lemma example_run_none:
  "run_inference example_library example_tool no_detections_image [[''car'']] 0.5 =
     ([InputsTo CPU, Autocast CPU], Inr [])"
  by (simp add: run_inference_def forward_pass_def example_tool_simps example_post_process decode_def
       py_getitem_def no_detections_image_def Let_def)

lemma example_run_stray:
  "run_inference example_library example_tool stray_label_image [[''car'']] 0.5 =
     ([InputsTo CPU, Autocast CPU], Inl (IndexError ''list index out of range''))"
  by (simp add: run_inference_def forward_pass_def example_tool_simps example_post_process decode_def
       py_getitem_def new_inference_def stray_label_image_def Let_def)

lemma example_call_two_cars:
  "snd (Owlv2_call example_library example_tool [''car''] (Some two_cars) None) =
     Inr [[\<lparr> label = ''car'', score = 0.9, bbox = [34.88, 158.16, 582.08, 373.2] \<rparr>,
           \<lparr> label = ''car'', score = 0.8, bbox = [34.88, 158.16, 582.08, 373.2] \<rparr>]]"
  using example_run_two_cars
  by (simp add: Owlv2_call_def example_tool_simps example_library_def)

lemma device_tool_simps:
  "model_config device_tool = \<lparr> model_name = ''owlv2'', processor_name = ''owlv2'', confidence = 0.5, device = MPS \<rparr>"
  "model device_tool = MPS"
  "processor device_tool = ()"
  by (simp_all add: device_tool_def Owlv2_init_def device_library_def)

lemma device_run_two_cars:
  "run_inference device_library (Owlv2_to device_library device_tool GPU) two_cars [[''car'']] 0.5 =
     ([InputsTo MPS, Autocast MPS],
      Inr [\<lparr> label = ''car'', score = 0.9, bbox = [34.881, 158.16, 582.08, 373.2] \<rparr>,
           \<lparr> label = ''car'', score = 0.8, bbox = [34.881, 158.16, 582.08, 373.2] \<rparr>])"
  by (simp add: run_inference_after_to device_tool_simps)
     (simp add: device_library_def decode_def py_getitem_def new_inference_def two_cars_def)

section \<open>The claims\<close>

text \<open>
  C1.  A call of the detection tool with both \<^verbatim>\<open>image\<close> and \<^verbatim>\<open>video\<close> raises the
  input-validation error (a \<^verbatim>\<open>ValueError\<close>), and so does a call with neither; a call
  with exactly one of them raises no \<^verbatim>\<open>ValueError\<close> at all.
\<close>

theorem Owlv2_call_validates_image_and_video:
  "(image_arg \<noteq> None \<and> video \<noteq> None \<longrightarrow>
      Owlv2_call L s prompts image_arg video =
        ([], Inl (ValueError ''Only one of 'image' or 'video' can be provided.'')))
   \<and> (image_arg = None \<and> video = None \<longrightarrow>
      Owlv2_call L s prompts image_arg video =
        ([], Inl (ValueError ''Either 'image' or 'video' must be provided.'')))
   \<and> ((image_arg = None) \<noteq> (video = None) \<longrightarrow>
      (\<forall>msg. snd (Owlv2_call L s prompts image_arg video) \<noteq> Inl (ValueError msg)))"
proof (intro conjI impI allI)
  assume "image_arg \<noteq> None \<and> video \<noteq> None"
  then show "Owlv2_call L s prompts image_arg video =
        ([], Inl (ValueError ''Only one of 'image' or 'video' can be provided.''))"
    by (auto simp: Owlv2_call_def)
next
  assume "image_arg = None \<and> video = None"
  then show "Owlv2_call L s prompts image_arg video =
        ([], Inl (ValueError ''Either 'image' or 'video' must be provided.''))"
    by (simp add: Owlv2_call_def)
next
  fix msg
  assume one: "(image_arg = None) \<noteq> (video = None)"
  show "snd (Owlv2_call L s prompts image_arg video) \<noteq> Inl (ValueError msg)"
  proof
    assume "snd (Owlv2_call L s prompts image_arg video) = Inl (ValueError msg)"
    from Owlv2_call_error [OF one this] show False by simp
  qed
qed

theorem Owlv2_call_validates_image_and_video_witness:
  "Owlv2_call example_library example_tool [''car''] (Some two_cars) (Some [two_cars]) =
        ([], Inl (ValueError ''Only one of 'image' or 'video' can be provided.''))
  \<and> Owlv2_call example_library example_tool [''car''] None None =
        ([], Inl (ValueError ''Either 'image' or 'video' must be provided.''))
  \<and> (\<forall>msg. snd (Owlv2_call example_library example_tool [''car''] (Some two_cars) None) \<noteq> Inl (ValueError msg))
  \<and> (\<forall>msg. snd (Owlv2_call example_library example_tool [''car''] None (Some [two_cars])) \<noteq> Inl (ValueError msg))"
  using Owlv2_call_validates_image_and_video [of "Some two_cars" "Some [two_cars]" example_library example_tool "[''car'']"]
    Owlv2_call_validates_image_and_video [of None None example_library example_tool "[''car'']"]
    Owlv2_call_validates_image_and_video [of "Some two_cars" None example_library example_tool "[''car'']"]
    Owlv2_call_validates_image_and_video [of None "Some [two_cars]" example_library example_tool "[''car'']"]
  by simp

text \<open>
  C2.  On a video of N frames the call returns exactly when the inference of every frame
  returns, and then the output has N entries, the k-th being what the inference of the
  k-th frame alone returns: it is also the single entry of a call on the one-frame video
  made of that frame.
\<close>

theorem Owlv2_call_video_one_list_per_frame:
  "(snd (Owlv2_call L s prompts None (Some frames)) = Inr out \<longleftrightarrow>
      length out = length frames \<and>
      (\<forall>k<length frames.
         snd (run_inference L s (image_convert_RGB L (image_fromarray L (frames ! k))) [prompts]
                (confidence (model_config s))) = Inr (out ! k)))
   \<and> (snd (Owlv2_call L s prompts None (Some frames)) = Inr out \<longrightarrow>
      (\<forall>k<length frames.
         snd (Owlv2_call L s prompts None (Some [frames ! k])) = Inr [out ! k]))"
proof -
  let ?f = "\<lambda>frame. snd (run_inference L s (image_convert_RGB L (image_fromarray L frame))
              [prompts] (confidence (model_config s)))"
  have whole: "snd (Owlv2_call L s prompts None (Some frames')) = Inr out' \<longleftrightarrow>
      map ?f frames' = map Inr out'" for frames' out'
    using Owlv2_call_Inr_iff [of None "Some frames'" L s prompts out']
    by (simp add: call_images_def comp_def)
  have nth: "map ?f frames = map Inr out \<longleftrightarrow>
      length out = length frames \<and> (\<forall>k<length frames. ?f (frames ! k) = Inr (out ! k))"
    by (auto simp: list_eq_iff_nth_eq)
  have single: "snd (Owlv2_call L s prompts None (Some [frames ! k])) = Inr [out ! k]"
    if "map ?f frames = map Inr out" and "k < length frames" for k
  proof -
    have "?f (frames ! k) = Inr (out ! k)"
      using that nth by blast
    then show ?thesis
      using whole [of "[frames ! k]" "[out ! k]"] by simp
  qed
  show ?thesis
    using whole [of frames out] nth single by blast
qed

theorem Owlv2_call_video_one_list_per_frame_witness:
  "snd (Owlv2_call example_library example_tool [''car''] None
          (Some [two_cars, no_detections_image])) =
     Inr [[\<lparr> label = ''car'', score = 0.9, bbox = [34.88, 158.16, 582.08, 373.2] \<rparr>,
           \<lparr> label = ''car'', score = 0.8, bbox = [34.88, 158.16, 582.08, 373.2] \<rparr>], []]
   \<and> snd (Owlv2_call example_library example_tool [''car''] None (Some [no_detections_image])) =
     Inr [[]]"
proof -
  let ?out = "[[\<lparr> label = ''car'', score = 0.9, bbox = [34.88, 158.16, 582.08, 373.2] \<rparr>,
           \<lparr> label = ''car'', score = 0.8, bbox = [34.88, 158.16, 582.08, 373.2] \<rparr>], []]"
  let ?frames = "[two_cars, no_detections_image]"
  have frames: "\<forall>k<length ?frames.
         snd (run_inference example_library example_tool
                (image_convert_RGB example_library (image_fromarray example_library (?frames ! k)))
                [[''car'']] (confidence (model_config example_tool))) = Inr (?out ! k)"
  proof (intro allI impI)
    fix k assume "k < length ?frames"
    then have "k = 0 \<or> k = 1" by auto
    then show "snd (run_inference example_library example_tool
                (image_convert_RGB example_library (image_fromarray example_library (?frames ! k)))
                [[''car'']] (confidence (model_config example_tool))) = Inr (?out ! k)"
      using example_run_two_cars example_run_none
      by (auto simp: example_tool_simps example_library_def)
  qed
  have whole: "snd (Owlv2_call example_library example_tool [''car''] None (Some ?frames)) = Inr ?out"
    using Owlv2_call_video_one_list_per_frame [of example_library example_tool "[''car'']" ?frames ?out]
      frames by simp
  have each: "\<forall>k<length ?frames.
      snd (Owlv2_call example_library example_tool [''car''] None (Some [?frames ! k])) = Inr [?out ! k]"
    using Owlv2_call_video_one_list_per_frame [of example_library example_tool "[''car'']" ?frames ?out]
      whole by blast
  have "(1::nat) < length ?frames" by simp
  with each have "snd (Owlv2_call example_library example_tool [''car''] None (Some [?frames ! 1])) =
      Inr [?out ! 1]"
    by blast
  then show ?thesis using whole by simp
qed

text \<open>
  C6.  Every record of a returned output comes from one item of the post-processing
  result of its image or frame, in order: its label is the prompt at the decoded label
  index (Python indexing; for an index from 0 on, the element at that position), each
  coordinate of its box went through \<^verbatim>\<open>round(_, 2)\<close>, so that the box keeps its
  length, and its score is the decoded score.
\<close>

theorem Owlv2_call_labels_and_boxes:
  assumes "snd (Owlv2_call L s prompts image_arg video) = Inr out"
  shows "length out = length (call_images L image_arg video) \<and>
     (\<forall>j<length out. \<exists>r rest.
        post_process L s (call_images L image_arg video ! j) [prompts]
          (confidence (model_config s)) = r # rest \<and>
        length (out ! j) = length (zipped r) \<and>
        (\<forall>k<length (out ! j).
           py_getitem prompts (labels r ! k) = Inr (label (out ! j ! k)) \<and>
           (0 \<le> labels r ! k \<longrightarrow> label (out ! j ! k) = prompts ! nat (labels r ! k)) \<and>
           bbox (out ! j ! k) = map (\<lambda>c. py_round L c 2) (boxes r ! k) \<and>
           length (bbox (out ! j ! k)) = length (boxes r ! k) \<and>
           score (out ! j ! k) = scores r ! k))"
  using Owlv2_call_records [OF assms] .

theorem Owlv2_call_labels_and_boxes_witness:
  "snd (Owlv2_call example_library example_tool [''car''] (Some two_cars) None) =
     Inr [[\<lparr> label = ''car'', score = 0.9, bbox = [34.88, 158.16, 582.08, 373.2] \<rparr>,
           \<lparr> label = ''car'', score = 0.8, bbox = [34.88, 158.16, 582.08, 373.2] \<rparr>]]
   \<and> length [[\<lparr> label = ''car'', score = 0.9, bbox = [34.88, 158.16, 582.08, 373.2] \<rparr>,
           \<lparr> label = ''car'', score = 0.8, bbox = [34.88, 158.16, 582.08, 373.2] \<rparr>]] =
       length (call_images example_library (Some two_cars) None)
   \<and> [34.88, 158.16, 582.08, 373.2] =
       map (\<lambda>c. py_round example_library c 2) [34.881, 158.16, 582.08, 373.2]"
proof -
  let ?out = "[[\<lparr> label = ''car'', score = 0.9, bbox = [34.88, 158.16, 582.08, 373.2] \<rparr>,
           \<lparr> label = ''car'', score = 0.8, bbox = [34.88, 158.16, 582.08, 373.2] \<rparr>]]"
  have call: "snd (Owlv2_call example_library example_tool [''car''] (Some two_cars) None) = Inr ?out"
    using example_run_two_cars
    by (simp add: Owlv2_call_def example_tool_simps example_library_def)
  have "length ?out = length (call_images example_library (Some two_cars) None)"
    using Owlv2_call_labels_and_boxes [OF call] by blast
  moreover have "[34.88, 158.16, 582.08, 373.2] =
       map (\<lambda>c. py_round example_library c 2) [34.881, 158.16, 582.08, 373.2]"
    by (simp add: example_library_def round_def)
  ultimately show ?thesis using call by blast
qed

text \<open>
  C4.  The thresholding is the library's: the wrapper hands it the configured confidence
  and copies the scores it gets back.  So, whenever the library's post-processing returns
  only scores that reach the threshold it is given, every record of a returned output has
  a score that reaches the configured confidence.
\<close>

theorem Owlv2_call_scores_reach_confidence:
  assumes contract: "\<forall>out' thr sizes. \<forall>r \<in> set (post_process_object_detection L (processor s) out' thr sizes).
             \<forall>x \<in> set (scores r). thr \<le> x"
    and returns: "snd (Owlv2_call L s prompts image_arg video) = Inr out"
  shows "\<forall>ds \<in> set out. \<forall>d \<in> set ds. confidence (model_config s) \<le> score d"
proof (intro ballI)
  fix ds d assume ds: "ds \<in> set out" and d: "d \<in> set ds"
  obtain j where j: "j < length out" and dsj: "ds = out ! j"
    using ds by (metis in_set_conv_nth)
  obtain k where k: "k < length ds" and dk: "d = ds ! k"
    using d by (metis in_set_conv_nth)
  let ?pp = "post_process L s (call_images L image_arg video ! j) [prompts]
          (confidence (model_config s))"
  obtain r rest where r: "?pp = r # rest" and len: "length (out ! j) = length (zipped r)"
    and sc: "score (out ! j ! k) = scores r ! k"
    using Owlv2_call_records [OF returns] j k dsj by blast
  have "k < length (scores r)"
    using k dsj len by (simp add: zipped_def)
  then have "scores r ! k \<in> set (scores r)" by simp
  moreover have "r \<in> set ?pp" using r by simp
  ultimately have "confidence (model_config s) \<le> scores r ! k"
    using contract unfolding post_process_def by blast
  then show "confidence (model_config s) \<le> score d"
    using sc dk dsj by simp
qed

theorem Owlv2_call_scores_reach_confidence_witness:
  "snd (Owlv2_call example_library example_tool [''car''] (Some two_cars) None) =
     Inr [[\<lparr> label = ''car'', score = 0.9, bbox = [34.88, 158.16, 582.08, 373.2] \<rparr>,
           \<lparr> label = ''car'', score = 0.8, bbox = [34.88, 158.16, 582.08, 373.2] \<rparr>]]
   \<and> list_all (list_all (\<lambda>d. confidence (model_config example_tool) \<le> score d))
       [[\<lparr> label = ''car'', score = 0.9, bbox = [34.88, 158.16, 582.08, 373.2] \<rparr>,
         \<lparr> label = ''car'', score = 0.8, bbox = [34.88, 158.16, 582.08, 373.2] \<rparr>]]
   \<and> confidence (model_config example_tool) = 0.5"
proof -
  let ?out = "[[\<lparr> label = ''car'', score = 0.9, bbox = [34.88, 158.16, 582.08, 373.2] \<rparr>,
           \<lparr> label = ''car'', score = 0.8, bbox = [34.88, 158.16, 582.08, 373.2] \<rparr>]]"
  have call: "snd (Owlv2_call example_library example_tool [''car''] (Some two_cars) None) = Inr ?out"
    using example_run_two_cars
    by (simp add: Owlv2_call_def example_tool_simps example_library_def)
  have contract: "\<forall>out' thr sizes.
      \<forall>r \<in> set (post_process_object_detection example_library (processor example_tool) out' thr sizes).
        \<forall>x \<in> set (scores r). thr \<le> x"
    by (auto simp: example_library_def)
  have "\<forall>ds \<in> set ?out. \<forall>d \<in> set ds. confidence (model_config example_tool) \<le> score d"
    by (rule Owlv2_call_scores_reach_confidence [OF contract call])
  then have "list_all (list_all (\<lambda>d. confidence (model_config example_tool) \<le> score d)) ?out"
    unfolding list_all_iff .
  then show ?thesis using call by (simp add: example_tool_simps)
qed

text \<open>
  C10.  The label index is used to index the prompts with no guard.  A call that returns
  has, in every image or frame, only label indices below the number of prompts among the
  items its loop visits; and a visited index that is equal to or above the number of
  prompts makes the call fail with the \<^verbatim>\<open>IndexError\<close> of the list indexing.  (The
  loop visits the items of \<^verbatim>\<open>zip(boxes, scores, labels)\<close>: all of the labels when
  the three tensors have one length, as \<open>zipped_labels\<close> says.)
\<close>

theorem label_index_is_not_guarded:
  assumes one: "(image_arg = None) \<noteq> (video = None)"
  shows "(snd (Owlv2_call L s prompts image_arg video) = Inr out \<longrightarrow>
      (\<forall>img \<in> set (call_images L image_arg video). \<forall>r rest.
         post_process L s img [prompts] (confidence (model_config s)) = r # rest \<longrightarrow>
         (\<forall>item \<in> set (zipped r). snd (snd item) < int (length prompts))))
   \<and> ((\<exists>img \<in> set (call_images L image_arg video). \<exists>r rest.
         post_process L s img [prompts] (confidence (model_config s)) = r # rest \<and>
         (\<exists>item \<in> set (zipped r). int (length prompts) \<le> snd (snd item))) \<longrightarrow>
      snd (Owlv2_call L s prompts image_arg video) = Inl (IndexError ''list index out of range''))"
proof (intro conjI impI)
  assume ret: "snd (Owlv2_call L s prompts image_arg video) = Inr out"
  show "\<forall>img \<in> set (call_images L image_arg video). \<forall>r rest.
         post_process L s img [prompts] (confidence (model_config s)) = r # rest \<longrightarrow>
         (\<forall>item \<in> set (zipped r). snd (snd item) < int (length prompts))"
    by (intro ballI allI impI) (rule Owlv2_call_index_bound [OF ret])
next
  assume "\<exists>img \<in> set (call_images L image_arg video). \<exists>r rest.
         post_process L s img [prompts] (confidence (model_config s)) = r # rest \<and>
         (\<exists>item \<in> set (zipped r). int (length prompts) \<le> snd (snd item))"
  then obtain img r rest item where img: "img \<in> set (call_images L image_arg video)"
    and pp: "post_process L s img [prompts] (confidence (model_config s)) = r # rest"
    and item: "item \<in> set (zipped r)" and big: "int (length prompts) \<le> snd (snd item)"
    by blast
  show "snd (Owlv2_call L s prompts image_arg video) = Inl (IndexError ''list index out of range'')"
  proof (cases "snd (Owlv2_call L s prompts image_arg video)")
    case (Inl e)
    then show ?thesis using Owlv2_call_error [OF one Inl] by simp
  next
    case (Inr out')
    from Owlv2_call_index_bound [OF Inr img pp item] big show ?thesis by simp
  qed
qed

theorem label_index_is_not_guarded_witness:
  "snd (Owlv2_call example_library example_tool [''car''] (Some stray_label_image) None) =
     Inl (IndexError ''list index out of range'')
   \<and> snd (Owlv2_call example_library example_tool [''car''] (Some two_cars) None) =
     Inr [[\<lparr> label = ''car'', score = 0.9, bbox = [34.88, 158.16, 582.08, 373.2] \<rparr>,
           \<lparr> label = ''car'', score = 0.8, bbox = [34.88, 158.16, 582.08, 373.2] \<rparr>]]
   \<and> list_all (\<lambda>item. snd (snd item) < int (length [''car'']))
       (zipped (hd (post_process example_library example_tool two_cars [[''car'']] 0.5)))"
proof -
  let ?out = "[[\<lparr> label = ''car'', score = 0.9, bbox = [34.88, 158.16, 582.08, 373.2] \<rparr>,
           \<lparr> label = ''car'', score = 0.8, bbox = [34.88, 158.16, 582.08, 373.2] \<rparr>]]"
  have one: "(Some x = None) \<noteq> ((None :: candidates list option) = None)" for x :: candidates
    by simp
  have imgs: "call_images example_library (Some x) None = [x]" for x
    by (simp add: call_images_def example_library_def)
  have conf: "confidence (model_config example_tool) = 0.5"
    by (simp add: example_tool_simps)
  have stray: "\<exists>img \<in> set (call_images example_library (Some stray_label_image) None). \<exists>r rest.
         post_process example_library example_tool img [[''car'']] (confidence (model_config example_tool)) = r # rest \<and>
         (\<exists>item \<in> set (zipped r). int (length [''car'']) \<le> snd (snd item))"
    by (simp add: imgs conf example_post_process zipped_def stray_label_image_def)
  have a: "snd (Owlv2_call example_library example_tool [''car''] (Some stray_label_image) None) =
     Inl (IndexError ''list index out of range'')"
    using label_index_is_not_guarded [OF one, of example_library example_tool "[''car'']" stray_label_image]
      stray by blast
  have call: "snd (Owlv2_call example_library example_tool [''car''] (Some two_cars) None) = Inr ?out"
    using example_run_two_cars
    by (simp add: Owlv2_call_def example_tool_simps example_library_def)
  obtain r rest where pp: "post_process example_library example_tool two_cars [[''car'']]
      (confidence (model_config example_tool)) = r # rest"
    by (simp add: example_post_process)
  have "\<forall>item \<in> set (zipped r). snd (snd item) < int (length [''car''])"
    using label_index_is_not_guarded [OF one, of example_library example_tool "[''car'']" two_cars ?out]
      call pp by (simp add: imgs)
  then have "list_all (\<lambda>item. snd (snd item) < int (length [''car''])) (zipped r)"
    unfolding list_all_iff .
  moreover have "r = hd (post_process example_library example_tool two_cars [[''car'']] 0.5)"
    using pp conf by simp
  ultimately show ?thesis using a call by simp
qed

text \<open>
  C7, as the code has it.  When the post-processing finds nothing in an image or frame,
  the inference returns the empty list and raises nothing.  A call on one such image
  returns \<^verbatim>\<open>[[]]\<close>, the list that holds one empty list of records; a call on a video
  of such frames returns one empty list per frame; and in any returned output of a video
  the entry of such a frame is empty.
\<close>

theorem no_detections_give_an_empty_list:
  "(no_detections L s img prompts \<longrightarrow>
      run_inference L s img [prompts] (confidence (model_config s)) =
        ([InputsTo (device (model_config s)), Autocast (device (model_config s))], Inr []))
   \<and> (no_detections L s (image_convert_RGB L img) prompts \<longrightarrow>
      snd (Owlv2_call L s prompts (Some img) None) = Inr [[]])
   \<and> py_of_output [[]] = PList [PList []]
   \<and> ((\<forall>frame \<in> set frames.
          no_detections L s (image_convert_RGB L (image_fromarray L frame)) prompts) \<longrightarrow>
      snd (Owlv2_call L s prompts None (Some frames)) = Inr (replicate (length frames) []))
   \<and> (snd (Owlv2_call L s prompts None (Some frames)) = Inr out \<longrightarrow>
      (\<forall>k<length frames.
         no_detections L s (image_convert_RGB L (image_fromarray L (frames ! k))) prompts \<longrightarrow>
         out ! k = []))"
proof (intro conjI impI allI)
  assume "no_detections L s img prompts"
  then show "run_inference L s img [prompts] (confidence (model_config s)) =
        ([InputsTo (device (model_config s)), Autocast (device (model_config s))], Inr [])"
    using no_detections_decode fst_run_inference snd_run_inference
    by (metis prod.collapse)
next
  assume "no_detections L s (image_convert_RGB L img) prompts"
  then have "snd (run_inference L s (image_convert_RGB L img) [prompts] (confidence (model_config s))) = Inr []"
    by (simp add: snd_run_inference no_detections_decode)
  then show "snd (Owlv2_call L s prompts (Some img) None) = Inr [[]]"
    using Owlv2_call_Inr_iff [of "Some img" None L s prompts "[[]]"]
    by (simp add: call_images_def)
next
  show "py_of_output [[]] = PList [PList []]"
    by (simp add: py_of_output_def)
next
  assume all: "\<forall>frame \<in> set frames.
          no_detections L s (image_convert_RGB L (image_fromarray L frame)) prompts"
  have "map (\<lambda>img. snd (run_inference L s img [prompts] (confidence (model_config s))))
       (call_images L None (Some frames)) = map Inr (replicate (length frames) [])"
    using all
    by (auto simp: call_images_def list_eq_iff_nth_eq snd_run_inference no_detections_decode)
  then show "snd (Owlv2_call L s prompts None (Some frames)) = Inr (replicate (length frames) [])"
    using Owlv2_call_Inr_iff [of None "Some frames" L s prompts "replicate (length frames) []"]
    by simp
next
  fix k
  assume ret: "snd (Owlv2_call L s prompts None (Some frames)) = Inr out"
    and k: "k < length frames"
    and none: "no_detections L s (image_convert_RGB L (image_fromarray L (frames ! k))) prompts"
  have "length out = length (call_images L None (Some frames))"
    and each: "\<forall>j<length out.
        decode L [prompts] (post_process L s (call_images L None (Some frames) ! j) [prompts]
          (confidence (model_config s))) = Inr (out ! j)"
    using Owlv2_call_outputs [OF ret] by blast+
  then have "decode L [prompts] (post_process L s
      (image_convert_RGB L (image_fromarray L (frames ! k))) [prompts]
          (confidence (model_config s))) = Inr (out ! k)"
    using k by (auto simp: call_images_def)
  then show "out ! k = []"
    using no_detections_decode [OF none] by simp
qed

theorem no_detections_give_an_empty_list_witness:
  "no_detections example_library example_tool no_detections_image [''screw'']
   \<and> run_inference example_library example_tool no_detections_image [[''screw'']]
        (confidence (model_config example_tool)) = ([InputsTo CPU, Autocast CPU], Inr [])
   \<and> snd (Owlv2_call example_library example_tool [''screw''] (Some no_detections_image) None) =
        Inr [[]]
   \<and> snd (Owlv2_call example_library example_tool [''screw''] None
        (Some [no_detections_image, no_detections_image])) = Inr [[], []]"
proof -
  have none: "no_detections example_library example_tool no_detections_image [''screw'']"
    by (simp add: no_detections_def example_post_process example_tool_simps no_detections_image_def)
  have conv: "image_convert_RGB example_library img = img"
    "image_fromarray example_library img = img" for img
    by (simp_all add: example_library_def)
  have all: "\<forall>frame \<in> set [no_detections_image, no_detections_image].
      no_detections example_library example_tool
        (image_convert_RGB example_library (image_fromarray example_library frame)) [''screw'']"
    using none by (simp add: conv)
  note inst = no_detections_give_an_empty_list [where L = example_library and s = example_tool
      and img = no_detections_image and prompts = "[''screw'']"
      and frames = "[no_detections_image, no_detections_image]" and out = "[[], []]"]
  have "run_inference example_library example_tool no_detections_image [[''screw'']]
        (confidence (model_config example_tool)) = ([InputsTo CPU, Autocast CPU], Inr [])"
    using inst none by (simp add: example_tool_simps)
  moreover have "snd (Owlv2_call example_library example_tool [''screw''] (Some no_detections_image) None) =
        Inr [[]]"
    using inst none by (simp add: conv)
  moreover have "snd (Owlv2_call example_library example_tool [''screw''] None
        (Some [no_detections_image, no_detections_image])) = Inr [[], []]"
    using inst all by simp
  ultimately show ?thesis using none by blast
qed

text \<open>The specification gives the output for an image without the queried object as
  \<^verbatim>\<open>[{"bboxes": [], "labels": []}]\<close>.  The call returns \<^verbatim>\<open>[[]]\<close>, which is not that
  value: its one entry is an empty list, not a dictionary.\<close>

theorem empty_output_is_not_a_dictionary:
  "snd (Owlv2_call example_library example_tool [''screw''] (Some no_detections_image) None) =
     Inr [[]]
   \<and> py_of_output [[]] \<noteq> PList [PDict [(''bboxes'', PList []), (''labels'', PList [])]]"
proof -
  have "snd (run_inference example_library example_tool no_detections_image [[''screw'']] 0.5) = Inr []"
    by (simp add: run_inference_def forward_pass_def example_tool_simps example_post_process
        decode_def py_getitem_def no_detections_image_def Let_def)
  then show ?thesis
    by (simp add: Owlv2_call_def example_tool_simps example_library_def py_of_output_def)
qed

text \<open>
  C3, as the code has it.  \<^verbatim>\<open>__call__\<close> declares \<^verbatim>\<open>prompts\<close>, \<^verbatim>\<open>image\<close> and
  \<^verbatim>\<open>video\<close> only: \<^verbatim>\<open>nms_threshold\<close> is not among its parameters, a call that passes
  any further keyword is refused with a \<^verbatim>\<open>TypeError\<close> before the body runs, and a call
  without one is the plain call.  The plain call suppresses nothing: the records of each
  image or frame are, in order, the items the post-processing returned, with their scores
  and their rounded boxes.
\<close>

theorem Owlv2_call_has_no_nms_threshold:
  "''nms_threshold'' \<notin> set Owlv2_call_parameters
   \<and> (extra \<noteq> [] \<longrightarrow>
      (\<exists>msg. Owlv2_call_keywords L s prompts image_arg video extra = ([], Inl (TypeError msg))))
   \<and> (extra = [] \<longrightarrow>
      Owlv2_call_keywords L s prompts image_arg video extra = Owlv2_call L s prompts image_arg video)
   \<and> (snd (Owlv2_call L s prompts image_arg video) = Inr out \<longrightarrow>
      length out = length (call_images L image_arg video) \<and>
      (\<forall>j<length out. \<exists>r rest.
         post_process L s (call_images L image_arg video ! j) [prompts]
           (confidence (model_config s)) = r # rest \<and>
         map score (out ! j) = map (\<lambda>item. fst (snd item)) (zipped r) \<and>
         map bbox (out ! j) = map (\<lambda>item. map (\<lambda>c. py_round L c 2) (fst item)) (zipped r)))"
proof (intro conjI impI)
  show "''nms_threshold'' \<notin> set Owlv2_call_parameters"
    by (simp add: Owlv2_call_parameters_def)
next
  assume "extra \<noteq> []"
  then show "\<exists>msg. Owlv2_call_keywords L s prompts image_arg video extra = ([], Inl (TypeError msg))"
    by (cases extra) (auto simp: Owlv2_call_keywords_def)
next
  assume "extra = []"
  then show "Owlv2_call_keywords L s prompts image_arg video extra =
      Owlv2_call L s prompts image_arg video"
    by (simp add: Owlv2_call_keywords_def)
next
  assume ret: "snd (Owlv2_call L s prompts image_arg video) = Inr out"
  show "length out = length (call_images L image_arg video)"
    using Owlv2_call_all_detections [OF ret] by blast
  show "\<forall>j<length out. \<exists>r rest.
         post_process L s (call_images L image_arg video ! j) [prompts]
           (confidence (model_config s)) = r # rest \<and>
         map score (out ! j) = map (\<lambda>item. fst (snd item)) (zipped r) \<and>
         map bbox (out ! j) = map (\<lambda>item. map (\<lambda>c. py_round L c 2) (fst item)) (zipped r)"
    using Owlv2_call_all_detections [OF ret] by blast
qed

theorem Owlv2_call_has_no_nms_threshold_witness:
  "(\<exists>msg. Owlv2_call_keywords example_library example_tool [''car''] (Some two_cars) None
       [(''nms_threshold'', 0.1 :: real)] = ([], Inl (TypeError msg)))
   \<and> snd (Owlv2_call_keywords example_library example_tool [''car''] (Some two_cars) None
       ([] :: (string \<times> real) list)) =
     Inr [[\<lparr> label = ''car'', score = 0.9, bbox = [34.88, 158.16, 582.08, 373.2] \<rparr>,
           \<lparr> label = ''car'', score = 0.8, bbox = [34.88, 158.16, 582.08, 373.2] \<rparr>]]
   \<and> length [[\<lparr> label = ''car'', score = 0.9, bbox = [34.88, 158.16, 582.08, 373.2] \<rparr>,
           \<lparr> label = ''car'', score = 0.8, bbox = [34.88, 158.16, 582.08, 373.2] \<rparr>]] =
       length (call_images example_library (Some two_cars) None)"
proof -
  let ?out = "[[\<lparr> label = ''car'', score = 0.9, bbox = [34.88, 158.16, 582.08, 373.2] \<rparr>,
           \<lparr> label = ''car'', score = 0.8, bbox = [34.88, 158.16, 582.08, 373.2] \<rparr>]]"
  have a: "\<exists>msg. Owlv2_call_keywords example_library example_tool [''car''] (Some two_cars) None
       [(''nms_threshold'', 0.1 :: real)] = ([], Inl (TypeError msg))"
    using Owlv2_call_has_no_nms_threshold [where extra = "[(''nms_threshold'', 0.1 :: real)]"
        and L = example_library and s = example_tool and prompts = "[''car'']"
        and image_arg = "Some two_cars" and video = None and out = ?out]
    by simp
  note inst = Owlv2_call_has_no_nms_threshold [where extra = "[] :: (string \<times> real) list"
        and L = example_library and s = example_tool and prompts = "[''car'']"
        and image_arg = "Some two_cars" and video = None and out = ?out]
  have b: "Owlv2_call_keywords example_library example_tool [''car''] (Some two_cars) None
       ([] :: (string \<times> real) list) =
       Owlv2_call example_library example_tool [''car''] (Some two_cars) None"
    using inst by simp
  have c: "length ?out = length (call_images example_library (Some two_cars) None)"
    using inst example_call_two_cars by blast
  show ?thesis
    using a b c example_call_two_cars by simp
qed

text \<open>The specification has the call accept a non-max-suppression threshold and
  suppress the lower-scoring of two overlapping detections of one label.  Passing
  \<^verbatim>\<open>nms_threshold=0.1\<close> raises a \<^verbatim>\<open>TypeError\<close>, and the plain call on an image with
  two detections of \<^verbatim>\<open>car\<close> in the very same box returns both.\<close>

theorem nms_threshold_is_refused:
  "Owlv2_call_keywords example_library example_tool [''car''] (Some two_cars) None
       [(''nms_threshold'', 0.1 :: real)] =
     ([], Inl (TypeError (''Owlv2.__call__() got an unexpected keyword argument '' @ [CHR 0x27]
        @ ''nms_threshold'' @ [CHR 0x27])))
   \<and> snd (Owlv2_call example_library example_tool [''car''] (Some two_cars) None) =
     Inr [[\<lparr> label = ''car'', score = 0.9, bbox = [34.88, 158.16, 582.08, 373.2] \<rparr>,
           \<lparr> label = ''car'', score = 0.8, bbox = [34.88, 158.16, 582.08, 373.2] \<rparr>]]"
proof -
  have "Owlv2_call_keywords example_library example_tool [''car''] (Some two_cars) None
       [(''nms_threshold'', 0.1 :: real)] =
     ([], Inl (TypeError (''Owlv2.__call__() got an unexpected keyword argument '' @ [CHR 0x27]
        @ ''nms_threshold'' @ [CHR 0x27])))"
    by (simp add: Owlv2_call_keywords_def Owlv2_call_parameters_def)
  moreover have "snd (Owlv2_call example_library example_tool [''car''] (Some two_cars) None) =
     Inr [[\<lparr> label = ''car'', score = 0.9, bbox = [34.88, 158.16, 582.08, 373.2] \<rparr>,
           \<lparr> label = ''car'', score = 0.8, bbox = [34.88, 158.16, 582.08, 373.2] \<rparr>]]"
    using example_run_two_cars
    by (simp add: Owlv2_call_def example_tool_simps example_library_def)
  ultimately show ?thesis by blast
qed

text \<open>
  C5.  The depth tool accepts a \<^verbatim>\<open>str\<close> (read with \<^verbatim>\<open>cv2.imread\<close>) and a PIL image
  (converted to an array in BGR order), and returns the depth map the network infers; an
  argument that is neither raises the input-validation error.
\<close>

theorem DepthEstimation_call_accepts_str_and_image_only:
  "DepthEstimation_call D t (PyStr path) =
     Inr (DepthMap (infer_image D (depth_model t) (cv2_imread D path)))
   \<and> DepthEstimation_call D t (PILImage img) =
     Inr (DepthMap (infer_image D (depth_model t) (cv2_cvtColor_RGB2BGR D (np_array D img))))
   \<and> ((\<forall>p. a \<noteq> PyStr p) \<and> (\<forall>i. a \<noteq> PILImage i) \<longrightarrow>
      DepthEstimation_call D t a =
        Inl (ValueError ''Invalid image type. Expected str or PIL.Image.Image.''))"
  by (cases a) (simp_all add: DepthEstimation_call_def)

theorem DepthEstimation_call_accepts_str_and_image_only_witness:
  "DepthEstimation_call example_depth_library example_depth_tool (PyStr ''car.jpg'') =
     Inr (DepthMap 8)
   \<and> DepthEstimation_call example_depth_library example_depth_tool (PILImage 5) =
     Inr (DepthMap 6)
   \<and> DepthEstimation_call example_depth_library example_depth_tool PyNone =
     Inl (ValueError ''Invalid image type. Expected str or PIL.Image.Image.'')
   \<and> DepthEstimation_call example_depth_library example_depth_tool (PathlibPath ''car.jpg'') =
     Inl (ValueError ''Invalid image type. Expected str or PIL.Image.Image.'')
   \<and> DepthEstimation_call example_depth_library example_depth_tool (NdArray 5) =
     Inl (ValueError ''Invalid image type. Expected str or PIL.Image.Image.'')"
  using DepthEstimation_call_accepts_str_and_image_only
      [of example_depth_library example_depth_tool "''car.jpg''" 5 PyNone]
    DepthEstimation_call_accepts_str_and_image_only
      [of example_depth_library example_depth_tool "''car.jpg''" 5 "PathlibPath ''car.jpg''"]
    DepthEstimation_call_accepts_str_and_image_only
      [of example_depth_library example_depth_tool "''car.jpg''" 5 "NdArray 5"]
  by (simp add: example_depth_library_def example_depth_tool_def)

text \<open>
  C8.  Two runs on the same tool and the same arguments, in which the library may behave
  differently (\<open>L\<close> and \<open>L'\<close>): when the interpreter's rounding is the same and the
  post-processing results for the images of the call are the same in both runs, the two
  calls return the same output or raise the same exception.  The wrapper's own steps add
  nothing that could differ.
\<close>

theorem Owlv2_call_is_a_function_of_the_model_outputs:
  assumes round: "py_round L = py_round L'"
    and results:
      "map (\<lambda>img. post_process L s img [prompts] (confidence (model_config s)))
         (call_images L image_arg video) =
       map (\<lambda>img. post_process L' s img [prompts] (confidence (model_config s)))
         (call_images L' image_arg video)"
  shows "snd (Owlv2_call L s prompts image_arg video) = snd (Owlv2_call L' s prompts image_arg video)"
proof (cases "(image_arg = None) \<noteq> (video = None)")
  case False
  then show ?thesis
    by (cases image_arg; cases video) (simp_all add: Owlv2_call_def)
next
  case True
  let ?c = "confidence (model_config s)"
  have "map (decode L [prompts])
          (map (\<lambda>img. post_process L s img [prompts] ?c) (call_images L image_arg video)) =
        map (decode L' [prompts])
          (map (\<lambda>img. post_process L' s img [prompts] ?c) (call_images L' image_arg video))"
    using results decode_library [OF round, of "[prompts]"] by auto
  then have same: "map (\<lambda>img. snd (run_inference L s img [prompts] ?c)) (call_images L image_arg video) =
      map (\<lambda>img. snd (run_inference L' s img [prompts] ?c)) (call_images L' image_arg video)"
    by (simp add: snd_run_inference comp_def)
  show ?thesis
  proof (rule sum_eq_by_Inr)
    fix out
    show "snd (Owlv2_call L s prompts image_arg video) = Inr out \<longleftrightarrow>
        snd (Owlv2_call L' s prompts image_arg video) = Inr out"
      unfolding Owlv2_call_Inr_iff [OF True] same ..
  next
    fix e assume "snd (Owlv2_call L s prompts image_arg video) = Inl e"
    then show "e = IndexError ''list index out of range''"
      by (rule Owlv2_call_error [OF True])
  next
    fix e assume "snd (Owlv2_call L' s prompts image_arg video) = Inl e"
    then show "e = IndexError ''list index out of range''"
      by (rule Owlv2_call_error [OF True])
  qed
qed

theorem Owlv2_call_is_a_function_of_the_model_outputs_witness:
  "snd (Owlv2_call example_library example_tool [''car''] None (Some [two_cars, no_detections_image])) =
   snd (Owlv2_call example_library' example_tool [''car''] None (Some [two_cars, no_detections_image]))
   \<and> model_forward example_library CPU CPU two_cars \<noteq> model_forward example_library' CPU CPU two_cars"
proof -
  have round: "py_round example_library = py_round example_library'"
    by (simp add: example_library'_def)
  have results:
    "map (\<lambda>img. post_process example_library example_tool img [[''car'']]
            (confidence (model_config example_tool)))
       (call_images example_library None (Some [two_cars, no_detections_image])) =
     map (\<lambda>img. post_process example_library' example_tool img [[''car'']]
            (confidence (model_config example_tool)))
       (call_images example_library' None (Some [two_cars, no_detections_image]))"
    by (simp add: call_images_def post_process_def forward_pass_def example_library'_def
        example_library_def example_tool_simps two_cars_def no_detections_image_def Let_def)
  have "model_forward example_library CPU CPU two_cars \<noteq>
      model_forward example_library' CPU CPU two_cars"
    by (simp add: example_library'_def example_library_def two_cars_def)
  then show ?thesis
    using Owlv2_call_is_a_function_of_the_model_outputs [OF round results] by blast
qed

text \<open>
  C9.  \<^verbatim>\<open>Owlv2.to(d)\<close> replaces the network by the moved network and leaves the
  configuration and the processor as they are.  In a call after it, the device handed to
  \<^verbatim>\<open>inputs.to\<close> and the device of the autocast context under which the moved network
  runs are the configured device, for the image of an image call and for every frame of a
  video call, whatever \<open>d\<close> is: the forward pass, the inference and the call are given in
  full, with the placements they ask for, one pair per frame the call reaches.  When \<open>d\<close>
  is another device, nothing is placed on \<open>d\<close>.  The configuration is the one given at
  construction, or the default one.
\<close>

theorem Owlv2_to_moves_only_the_network:
  "model_config (Owlv2_to L s d) = model_config s
   \<and> processor (Owlv2_to L s d) = processor s
   \<and> model (Owlv2_to L s d) = module_to L (model s) d
   \<and> forward_pass L (Owlv2_to L s d) img texts =
       ([InputsTo (device (model_config s)), Autocast (device (model_config s))],
        model_forward L (module_to L (model s) d) (device (model_config s))
          (inputs_to L (processor_call L (processor s) texts img) (device (model_config s))))
   \<and> run_inference L (Owlv2_to L s d) img texts c =
       ([InputsTo (device (model_config s)), Autocast (device (model_config s))],
        decode L texts
          (post_process_object_detection L (processor s)
             (model_forward L (module_to L (model s) d) (device (model_config s))
                (inputs_to L (processor_call L (processor s) texts img)
                   (device (model_config s))))
             c [prod.swap (image_size L img)]))
   \<and> Owlv2_call L (Owlv2_to L s d) prompts (Some img) None =
       ([InputsTo (device (model_config s)), Autocast (device (model_config s))],
        case snd (run_inference L (Owlv2_to L s d) (image_convert_RGB L img) [prompts]
                    (confidence (model_config s))) of
          Inl e \<Rightarrow> Inl e
        | Inr ds \<Rightarrow> Inr [ds])
   \<and> fst (Owlv2_call L (Owlv2_to L s d) prompts None (Some frames)) =
       concat (replicate (frames_processed L (Owlv2_to L s d) [prompts] frames)
         [InputsTo (device (model_config s)), Autocast (device (model_config s))])
   \<and> frames_processed L (Owlv2_to L s d) [prompts] frames \<le> length frames
   \<and> (snd (Owlv2_call L (Owlv2_to L s d) prompts None (Some frames)) = Inr out \<longrightarrow>
       frames_processed L (Owlv2_to L s d) [prompts] frames = length frames \<and>
       (\<forall>k<length frames.
          snd (run_inference L (Owlv2_to L s d)
                 (image_convert_RGB L (image_fromarray L (frames ! k))) [prompts]
                 (confidence (model_config s))) = Inr (out ! k)))
   \<and> set (fst (Owlv2_call L (Owlv2_to L s d) prompts image_arg video)) \<subseteq>
       {InputsTo (device (model_config s)), Autocast (device (model_config s))}
   \<and> fst (Owlv2_call L (Owlv2_to L s d) prompts (Some img) None) =
       [InputsTo (device (model_config s)), Autocast (device (model_config s))]
   \<and> (d \<noteq> device (model_config s) \<longrightarrow>
       InputsTo d \<notin> set (fst (Owlv2_call L (Owlv2_to L s d) prompts image_arg video)) \<and>
       Autocast d \<notin> set (fst (Owlv2_call L (Owlv2_to L s d) prompts image_arg video)))
   \<and> model_config (Owlv2_to L (Owlv2_init L default_config (Some cfg)) d) = cfg
   \<and> model_config (Owlv2_to L (Owlv2_init L default_config None) d) = default_config"
proof -
  have cfg: "model_config (Owlv2_to L s d) = model_config s"
    by (simp add: Owlv2_to_def)
  have prc: "processor (Owlv2_to L s d) = processor s"
    and net: "model (Owlv2_to L s d) = module_to L (model s) d"
    by (simp_all add: Owlv2_to_def)
  have init: "model_config (Owlv2_to L (Owlv2_init L default_config (Some cfg)) d) = cfg"
    "model_config (Owlv2_to L (Owlv2_init L default_config None) d) = default_config"
    by (simp_all add: Owlv2_to_def Owlv2_init_def Let_def)
  have call_img: "Owlv2_call L (Owlv2_to L s d) prompts (Some img) None =
       ([InputsTo (device (model_config s)), Autocast (device (model_config s))],
        case snd (run_inference L (Owlv2_to L s d) (image_convert_RGB L img) [prompts]
                    (confidence (model_config s))) of
          Inl e \<Rightarrow> Inl e
        | Inr ds \<Rightarrow> Inr [ds])"
    using Owlv2_call_image [of L "Owlv2_to L s d" prompts img]
    by (simp add: cfg fst_run_inference)
  have video_events: "fst (Owlv2_call L (Owlv2_to L s d) prompts None (Some frames)) =
       concat (replicate (frames_processed L (Owlv2_to L s d) [prompts] frames)
         [InputsTo (device (model_config s)), Autocast (device (model_config s))])"
    using Owlv2_call_video_events [of L "Owlv2_to L s d" prompts frames] by (simp add: cfg)
  have returned: "frames_processed L (Owlv2_to L s d) [prompts] frames = length frames \<and>
       (\<forall>k<length frames.
          snd (run_inference L (Owlv2_to L s d)
                 (image_convert_RGB L (image_fromarray L (frames ! k))) [prompts]
                 (confidence (model_config s))) = Inr (out ! k))"
    if "snd (Owlv2_call L (Owlv2_to L s d) prompts None (Some frames)) = Inr out"
    using Owlv2_call_video_returned [OF that] by (simp add: cfg)
  have sub: "set (fst (Owlv2_call L (Owlv2_to L s d) prompts image_arg video)) \<subseteq>
       {InputsTo (device (model_config s)), Autocast (device (model_config s))}"
    using Owlv2_call_events [of L "Owlv2_to L s d" prompts image_arg video] by (simp add: cfg)
  have img: "fst (Owlv2_call L (Owlv2_to L s d) prompts (Some img) None) =
       [InputsTo (device (model_config s)), Autocast (device (model_config s))]"
    by (simp add: Owlv2_call_image_events cfg)
  have other: "InputsTo d \<notin> set (fst (Owlv2_call L (Owlv2_to L s d) prompts image_arg video)) \<and>
       Autocast d \<notin> set (fst (Owlv2_call L (Owlv2_to L s d) prompts image_arg video))"
    if "d \<noteq> device (model_config s)"
    using sub that by auto
  show ?thesis
    using cfg prc net forward_pass_after_to [of L s d img texts]
      run_inference_after_to [of L s d img texts c] call_img video_events
      frames_processed_le [of L "Owlv2_to L s d" "[prompts]" frames] returned sub img other init
    by blast
qed

theorem Owlv2_to_moves_only_the_network_witness:
  "device (model_config example_tool) = CPU
   \<and> model (Owlv2_to example_library example_tool GPU) = GPU
   \<and> device (model_config (Owlv2_to example_library example_tool GPU)) = CPU
   \<and> fst (Owlv2_call example_library (Owlv2_to example_library example_tool GPU) [''car'']
        (Some two_cars) None) = [InputsTo CPU, Autocast CPU]
   \<and> InputsTo GPU \<notin> set (fst (Owlv2_call example_library (Owlv2_to example_library example_tool GPU)
        [''car''] None (Some [two_cars, two_cars])))
   \<and> Autocast GPU \<notin> set (fst (Owlv2_call example_library (Owlv2_to example_library example_tool GPU)
        [''car''] None (Some [two_cars, two_cars])))
   \<and> device (model_config device_tool) = MPS
   \<and> forward_pass device_library (Owlv2_to device_library device_tool GPU) two_cars [[''car'']] =
        ([InputsTo MPS, Autocast MPS], ((GPU, MPS, MPS), two_cars))
   \<and> fst (Owlv2_call device_library (Owlv2_to device_library device_tool GPU) [''car''] None
        (Some [two_cars, two_cars])) = [InputsTo MPS, Autocast MPS, InputsTo MPS, Autocast MPS]"
proof -
  have dev: "device (model_config example_tool) = CPU"
    by (simp add: example_tool_simps)
  have ne: "GPU \<noteq> device (model_config example_tool)"
    by (simp add: dev)
  note inst = Owlv2_to_moves_only_the_network [where L = example_library and s = example_tool
      and d = GPU and prompts = "[''car'']" and img = two_cars and image_arg = None
      and video = "Some [two_cars, two_cars]"]
  have a: "model (Owlv2_to example_library example_tool GPU) = GPU"
    using inst by (simp add: example_library_def)
  have b: "device (model_config (Owlv2_to example_library example_tool GPU)) = CPU"
    using inst dev by simp
  have c: "fst (Owlv2_call example_library (Owlv2_to example_library example_tool GPU) [''car'']
        (Some two_cars) None) = [InputsTo CPU, Autocast CPU]"
    using inst dev by simp
  have e: "InputsTo GPU \<notin> set (fst (Owlv2_call example_library
        (Owlv2_to example_library example_tool GPU) [''car''] None (Some [two_cars, two_cars])))
     \<and> Autocast GPU \<notin> set (fst (Owlv2_call example_library
        (Owlv2_to example_library example_tool GPU) [''car''] None (Some [two_cars, two_cars])))"
    using inst ne by blast
  let ?t = "Owlv2_to device_library device_tool GPU"
  let ?ds = "[\<lparr> label = ''car'', score = 0.9, bbox = [34.881, 158.16, 582.08, 373.2] \<rparr>,
           \<lparr> label = ''car'', score = 0.8, bbox = [34.881, 158.16, 582.08, 373.2] \<rparr>]"
  have ddev: "device (model_config device_tool) = MPS"
    by (simp add: device_tool_simps)
  have dconv: "image_convert_RGB device_library x = x" "image_fromarray device_library x = x"
    for x
    by (simp_all add: device_library_def)
  have conf: "confidence (model_config ?t) = 0.5"
    by (simp add: Owlv2_to_def device_tool_simps)
  note dinst = Owlv2_to_moves_only_the_network [where L = device_library and s = device_tool
      and d = GPU and prompts = "[''car'']" and img = two_cars and texts = "[[''car'']]"
      and frames = "[two_cars, two_cars]" and out = "[?ds, ?ds]"]
  have f: "forward_pass device_library ?t two_cars [[''car'']] =
        ([InputsTo MPS, Autocast MPS], ((GPU, MPS, MPS), two_cars))"
    using dinst by (simp add: device_tool_simps) (simp add: device_library_def)
  have "map (\<lambda>img. snd (run_inference device_library ?t img [[''car'']] (confidence (model_config ?t))))
       (call_images device_library None (Some [two_cars, two_cars])) = map Inr [?ds, ?ds]"
    using device_run_two_cars by (simp add: conf call_images_def dconv)
  then have ret: "snd (Owlv2_call device_library ?t [''car''] None (Some [two_cars, two_cars])) =
      Inr [?ds, ?ds]"
    using Owlv2_call_Inr_iff [of None "Some [two_cars, two_cars]" device_library ?t "[''car'']"
        "[?ds, ?ds]"]
    by simp
  have n: "frames_processed device_library ?t [[''car'']] [two_cars, two_cars] =
      length [two_cars, two_cars]"
    using dinst ret by blast
  have "fst (Owlv2_call device_library ?t [''car''] None (Some [two_cars, two_cars])) =
       concat (replicate (frames_processed device_library ?t [[''car'']] [two_cars, two_cars])
         [InputsTo (device (model_config device_tool)), Autocast (device (model_config device_tool))])"
    using dinst by blast
  then have g: "fst (Owlv2_call device_library ?t [''car''] None (Some [two_cars, two_cars])) =
      [InputsTo MPS, Autocast MPS, InputsTo MPS, Autocast MPS]"
    unfolding n by (simp add: ddev numeral_2_eq_2)
  show ?thesis
    using dev a b c e ddev f g by blast
qed

end
